theory Spec2Isabelle
  imports Complex_Main "HOL-Library.Word"
begin

section \<open>JavaScript values\<close>

text \<open>
  The values the poller handles come out of a parsed JSON response body. Primitives are
  compared by value; an array or an object is a reference, so it carries the address it
  was allocated at and \<open>===\<close> compares addresses only. A number is the value of the
  double (JSON never yields NaN, and \<open>0\<close> and \<open>-0\<close> are equal under \<open>===\<close>).
  A string, also the name of a property, is the list of its UTF-16 code units.
  \<open>JUndefined\<close> is what reading a missing property gives.
\<close>

type_synonym jsstring = "16 word list"

datatype jsval =
    JUndefined
  | JNull
  | JBool bool
  | JNum rat
  | JStr jsstring
  | JArr nat "jsval list"
  | JObj nat "(jsstring \<times> jsval) list"

text \<open>The JavaScript string of a literal of the source: one code unit for each
  character.\<close>

definition unit_of :: "char \<Rightarrow> 16 word" where
  "unit_of c = of_nat (of_char c)"

definition units :: "string \<Rightarrow> jsstring" where
  "units s = map unit_of s"

text \<open>A thrown error; the source only ever reads its \<open>message\<close>.\<close>

datatype exn = Exn string

fun message :: "exn \<Rightarrow> string" where
  "message (Exn m) = m"

definition type_error :: "string \<Rightarrow> string \<Rightarrow> exn" where
  "type_error base key =
     Exn (''Cannot read properties of '' @ base @ '' (reading '' @ [CHR 0x27] @ key @ [CHR 0x27] @ '')'')"

text \<open>
  \<open>v.key\<close> for a key that no prototype defines (the source reads \<open>data\<close> and \<open>id\<close>):
  a TypeError on \<open>undefined\<close> and \<open>null\<close>, the own property of an object, and
  \<open>undefined\<close> on everything else.
\<close>

fun get_prop :: "jsval \<Rightarrow> string \<Rightarrow> exn + jsval" where
  "get_prop JUndefined key = Inl (type_error ''undefined'' key)"
| "get_prop JNull key = Inl (type_error ''null'' key)"
| "get_prop (JObj r fields) key =
     Inr (case map_of fields (units key) of None \<Rightarrow> JUndefined | Some v \<Rightarrow> v)"
| "get_prop _ key = Inr JUndefined"

text \<open>\<open>v[0]\<close>: the first element of an array, the first code unit of a string, the
  property \<open>"0"\<close> of an object; \<open>undefined\<close> when there is none.\<close>

fun index0 :: "jsval \<Rightarrow> exn + jsval" where
  "index0 JUndefined = Inl (type_error ''undefined'' ''0'')"
| "index0 JNull = Inl (type_error ''null'' ''0'')"
| "index0 (JArr r xs) = Inr (case xs of [] \<Rightarrow> JUndefined | x # _ \<Rightarrow> x)"
| "index0 (JStr s) = Inr (case s of [] \<Rightarrow> JUndefined | u # _ \<Rightarrow> JStr [u])"
| "index0 (JObj r fields) =
     Inr (case map_of fields (units ''0'') of None \<Rightarrow> JUndefined | Some v \<Rightarrow> v)"
| "index0 _ = Inr JUndefined"

text \<open>\<open>a === b\<close>.\<close>

fun strict_eq :: "jsval \<Rightarrow> jsval \<Rightarrow> bool" where
  "strict_eq JUndefined JUndefined = True"
| "strict_eq JNull JNull = True"
| "strict_eq (JBool a) (JBool b) = (a = b)"
| "strict_eq (JNum a) (JNum b) = (a = b)"
| "strict_eq (JStr a) (JStr b) = (a = b)"
| "strict_eq (JArr r xs) (JArr r' ys) = (r = r')"
| "strict_eq (JObj r fs) (JObj r' gs) = (r = r')"
| "strict_eq _ _ = False"

fun typeof :: "jsval \<Rightarrow> string" where
  "typeof JUndefined = ''undefined''"
| "typeof JNull = ''object''"
| "typeof (JBool b) = ''boolean''"
| "typeof (JNum n) = ''number''"
| "typeof (JStr s) = ''string''"
| "typeof (JArr r xs) = ''object''"
| "typeof (JObj r fs) = ''object''"

text \<open>Truthiness, as \<open>v ? a : b\<close> and \<open>!v\<close> test it.\<close>

fun truthy :: "jsval \<Rightarrow> bool" where
  "truthy JUndefined = False"
| "truthy JNull = False"
| "truthy (JBool b) = b"
| "truthy (JNum n) = (n \<noteq> 0)"
| "truthy (JStr s) = (s \<noteq> [])"
| "truthy (JArr r xs) = True"
| "truthy (JObj r fs) = True"

text \<open>The values that are not references.\<close>

fun primitive :: "jsval \<Rightarrow> bool" where
  "primitive (JArr r xs) = False"
| "primitive (JObj r fs) = False"
| "primitive _ = True"

fun address :: "jsval \<Rightarrow> nat option" where
  "address (JArr r xs) = Some r"
| "address (JObj r fs) = Some r"
| "address _ = None"

text \<open>What a value says, without the addresses: two values parsed from the same JSON
  text have the same content, at different addresses.\<close>

datatype content =
    CUndefined
  | CNull
  | CBool bool
  | CNum rat
  | CStr jsstring
  | CArr "content list"
  | CObj "(jsstring \<times> content) list"

primrec content_of :: "jsval \<Rightarrow> content" where
  "content_of JUndefined = CUndefined"
| "content_of JNull = CNull"
| "content_of (JBool b) = CBool b"
| "content_of (JNum n) = CNum n"
| "content_of (JStr s) = CStr s"
| "content_of (JArr r xs) = CArr (map content_of xs)"
| "content_of (JObj r fs) = CObj (map (map_prod id content_of) fs)"

text \<open>The library functions whose output the source only passes on: \<open>JSON.stringify\<close>
  and \<open>String\<close>.\<close>

record builtins =
  JSON_stringify :: "jsval \<Rightarrow> string"
  js_String :: "jsval \<Rightarrow> string"

section \<open>Numbers and strings in templates\<close>

fun digit_char :: "nat \<Rightarrow> char" where
  "digit_char n = ''0123456789'' ! n"

fun show_nat :: "nat \<Rightarrow> string" where
  "show_nat n = (if n < 10 then [digit_char n] else show_nat (n div 10) @ [digit_char (n mod 10)])"

declare show_nat.simps [simp del]

definition show_int :: "int \<Rightarrow> string" where
  "show_int i = (if i < 0 then ''-'' @ show_nat (nat (- i)) else show_nat (nat i))"

text \<open>An integer-valued number in a template, \<open>None\<close> being NaN (what \<open>parseInt\<close>
  gives for a setting without digits): all its digits below \<open>1e21\<close>, and from there on
  whatever \<open>String\<close> makes of it, which is the exponent form.\<close>

fun num_str :: "builtins \<Rightarrow> int option \<Rightarrow> string" where
  "num_str B None = ''NaN''"
| "num_str B (Some i) =
     (if \<bar>i\<bar> < 10 ^ 21 then show_int i else js_String B (JNum (of_int i)))"

text \<open>An environment variable in a template: \<open>undefined\<close> when it is not set.\<close>

fun env_str :: "string option \<Rightarrow> string" where
  "env_str None = ''undefined''"
| "env_str (Some s) = s"

fun env_truthy :: "string option \<Rightarrow> bool" where
  "env_truthy None = False"
| "env_truthy (Some s) = (s \<noteq> [])"

section \<open>Configuration and the effects of the program\<close>

record config =
  API_URL :: "string option"
  REQUEST_INTERVAL :: "int option"
  REQUEST_TIMEOUT :: "int option"
  REQUEST_HEADERS :: "string option"
  TELEGRAM_BOT_TOKEN :: "string option"
  TELEGRAM_CHAT_ID :: "string option"
  NOTIFY_ON_CHANGE_ONLY :: bool

text \<open>\<open>bot\<close> is an object when the token is set and \<open>null\<close> otherwise; only that is
  ever tested.\<close>

definition bot :: "config \<Rightarrow> bool" where
  "bot cfg = env_truthy (TELEGRAM_BOT_TOKEN cfg)"

text \<open>
  What the program does to the outside, in order: log lines, the HTTP request (URL,
  headers, timeout in milliseconds), a call of \<open>sendTelegramMessage\<close> (\<open>Notify\<close>), the
  Telegram API call inside it (chat, text), a reply to a command, starting the bot and
  scheduling the job.
\<close>

datatype event =
    LogInfo string
  | LogError string
  | AxiosGet "string option" "string option" "int option"
  | Notify string
  | BotSendMessage string string
  | Reply string
  | BotStart
  | ScheduleJob string

fun notifications :: "event list \<Rightarrow> string list" where
  "notifications [] = []"
| "notifications (Notify m # es) = m # notifications es"
| "notifications (e # es) = notifications es"

fun api_sends :: "event list \<Rightarrow> (string \<times> string) list" where
  "api_sends [] = []"
| "api_sends (BotSendMessage chat m # es) = (chat, m) # api_sends es"
| "api_sends (e # es) = api_sends es"

text \<open>The two module variables.\<close>

record poll_state =
  lastResponseId :: jsval
  lastResponse :: jsval

definition initial_state :: poll_state where
  "initial_state = \<lparr>lastResponseId = JNull, lastResponse = JNull\<rparr>"

section \<open>sendTelegramMessage and formatResponse\<close>

text \<open>What \<open>await bot.api.sendMessage(...)\<close> does: it returns or it throws.\<close>

datatype send_result = Delivered | SendFailed string

definition sendTelegramMessage :: "config \<Rightarrow> string \<Rightarrow> send_result \<Rightarrow> event list \<times> bool" where
  "sendTelegramMessage cfg msg api =
     (if \<not> bot cfg \<or> \<not> env_truthy (TELEGRAM_CHAT_ID cfg) then
        ([LogError ''Telegram configuration missing, cannot send message''], False)
      else
        (case api of
           Delivered \<Rightarrow>
             ([BotSendMessage (env_str (TELEGRAM_CHAT_ID cfg)) msg,
               LogInfo ''Telegram message sent successfully''], True)
         | SendFailed m \<Rightarrow>
             ([BotSendMessage (env_str (TELEGRAM_CHAT_ID cfg)) msg,
               LogError (''Failed to send Telegram message: '' @ m)], False)))"

text \<open>\<open>JSON.stringify\<close> does not throw on a value parsed from JSON, so the handler of
  \<open>formatResponse\<close> is never entered.\<close>

definition formatResponse :: "builtins \<Rightarrow> jsval \<Rightarrow> string" where
  "formatResponse B responseData =
     (if typeof responseData = ''object'' then JSON_stringify B responseData
      else js_String B responseData)"

section \<open>pollHttpEndpoint\<close>

text \<open>What \<open>await axios.get(...)\<close> does: it throws (network failure, timeout, a status
  outside 2xx) or it returns a response with a status and a parsed body.\<close>

datatype axios_result = Rejected string | Response int jsval

text \<open>Everything one run of \<open>pollHttpEndpoint\<close> reads from outside: the request's
  result, the clock at the notification, and the Telegram API's result.\<close>

record poll_env =
  axios_get :: axios_result
  date_now :: string
  send_api :: send_result

text \<open>In a text that leaves the program (a log line, a message, a reply) a character
  outside ASCII stands as its UTF-8 bytes.\<close>

definition emoji_updated :: string where
  "emoji_updated = [CHR 0xF0, CHR 0x9F, CHR 0x94, CHR 0x84]"

definition emoji_unchanged :: string where
  "emoji_unchanged = [CHR 0xE2, CHR 0x9C, CHR 0x85]"

text \<open>\<open>responseData = response.data.data[0]\<close> and \<open>currentId = responseData.id\<close>.\<close>

definition read_candidate :: "jsval \<Rightarrow> exn + jsval \<times> jsval" where
  "read_candidate body =
     (case get_prop body ''data'' of
        Inl e \<Rightarrow> Inl e
      | Inr arr \<Rightarrow>
          (case index0 arr of
             Inl e \<Rightarrow> Inl e
           | Inr responseData \<Rightarrow>
               (case get_prop responseData ''id'' of
                  Inl e \<Rightarrow> Inl e
                | Inr currentId \<Rightarrow> Inr (responseData, currentId))))"

text \<open>\<open>hasChanged = currentId !== lastResponseId\<close>.\<close>

definition hasChanged :: "jsval \<Rightarrow> poll_state \<Rightarrow> bool" where
  "hasChanged currentId st = (\<not> strict_eq currentId (lastResponseId st))"

text \<open>The text of the notification: \<open>`${timestamp} ${status}\n\n${formatResponse(responseData)}`\<close>.\<close>

definition change_message :: "builtins \<Rightarrow> string \<Rightarrow> bool \<Rightarrow> jsval \<Rightarrow> string" where
  "change_message B timestamp changed responseData =
     (let status_text =
            (if changed then emoji_updated @ '' Data updated''
             else emoji_unchanged @ '' Data unchanged'')
      in timestamp @ '' '' @ status_text @ ''\<newline>\<newline>'' @ formatResponse B responseData)"

text \<open>The body of the \<open>try\<close> after the request was issued: an exception, or the new
  state and the effects.\<close>

definition poll_try :: "config \<Rightarrow> builtins \<Rightarrow> poll_state \<Rightarrow> poll_env \<Rightarrow> exn + poll_state \<times> event list" where
  "poll_try cfg B st env =
     (case axios_get env of
        Rejected m \<Rightarrow> Inl (Exn m)
      | Response status body \<Rightarrow>
          if status \<noteq> 200 then
            Inr (st, [LogError (''HTTP request failed: Status code '' @ num_str B (Some status))])
          else
            (case read_candidate body of
               Inl e \<Rightarrow> Inl e
             | Inr (responseData, currentId) \<Rightarrow>
                 (let changed = hasChanged currentId st;
                      sent =
                        (if changed then
                           (let msg = change_message B (date_now env) changed responseData
                            in Notify msg # fst (sendTelegramMessage cfg msg (send_api env)))
                         else [])
                  in Inr (\<lparr>lastResponseId = currentId, lastResponse = responseData\<rparr>,
                          sent @ [LogInfo (''Polling completed, data ''
                                    @ (if changed then ''updated'' else ''unchanged''))]))))"

text \<open>The log line and the request that every run starts with.\<close>

definition poll_started :: "config \<Rightarrow> event list" where
  "poll_started cfg =
     [LogInfo (''Starting to poll '' @ env_str (API_URL cfg)),
      AxiosGet (API_URL cfg) (REQUEST_HEADERS cfg)
        (map_option (\<lambda>t. t * 1000) (REQUEST_TIMEOUT cfg))]"

definition pollHttpEndpoint :: "config \<Rightarrow> builtins \<Rightarrow> poll_state \<Rightarrow> poll_env \<Rightarrow> poll_state \<times> event list" where
  "pollHttpEndpoint cfg B st env =
     (case poll_try cfg B st env of
        Inl error \<Rightarrow>
          (st, poll_started cfg @ [LogError (''HTTP request exception: '' @ message error)])
      | Inr (st', effects) \<Rightarrow> (st', poll_started cfg @ effects))"

text \<open>Cycles that run one after the other, each from the state the one before left.\<close>

fun run_cycles :: "config \<Rightarrow> builtins \<Rightarrow> poll_state \<Rightarrow> poll_env list \<Rightarrow> poll_state \<times> event list" where
  "run_cycles cfg B st [] = (st, [])"
| "run_cycles cfg B st (env # envs) =
     (case pollHttpEndpoint cfg B st env of
        (st', effects) \<Rightarrow>
          (case run_cycles cfg B st' envs of
             (st'', later) \<Rightarrow> (st'', effects @ later)))"

section \<open>The bot commands and main\<close>

definition emoji_magnifier :: string where
  "emoji_magnifier = [CHR 0xF0, CHR 0x9F, CHR 0x94, CHR 0x8D]"

definition emoji_stopwatch :: string where
  "emoji_stopwatch = [CHR 0xE2, CHR 0x8F, CHR 0xB1]"

definition emoji_link :: string where
  "emoji_link = [CHR 0xF0, CHR 0x9F, CHR 0x94, CHR 0x97]"

definition emoji_memo :: string where
  "emoji_memo = [CHR 0xF0, CHR 0x9F, CHR 0x93, CHR 0x9D]"

definition emoji_clock :: string where
  "emoji_clock = [CHR 0xF0, CHR 0x9F, CHR 0x95, CHR 0x92]"

text \<open>The text of the \<open>/status\<close> reply. \<open>now\<close> is \<open>new Date().toLocaleString()\<close> at the
  moment the command is handled.\<close>

definition status_message :: "config \<Rightarrow> builtins \<Rightarrow> poll_state \<Rightarrow> string \<Rightarrow> string" where
  "status_message cfg B st now =
     ''\<newline>'' @ emoji_magnifier @ '' <b>Bot Status</b>\<newline>\<newline>''
     @ emoji_stopwatch @ '' Polling interval: '' @ num_str B (REQUEST_INTERVAL cfg)
     @ '' seconds\<newline>''
     @ emoji_link @ '' API address: '' @ env_str (API_URL cfg) @ ''\<newline>''
     @ emoji_memo @ '' Notify only on data change: ''
     @ (if NOTIFY_ON_CHANGE_ONLY cfg then ''Yes'' else ''No'') @ ''\<newline>''
     @ emoji_clock @ '' Last update time: ''
     @ (if truthy (lastResponse st) then now else ''No data retrieved yet'')
     @ ''\<newline>    ''"

text \<open>What \<open>await ctx.reply(...)\<close> does: it returns, or it throws and \<open>bot.catch\<close>
  logs the error.\<close>

datatype reply_result = Replied | ReplyFailed string

definition status_command :: "config \<Rightarrow> builtins \<Rightarrow> poll_state \<Rightarrow> string \<Rightarrow> reply_result \<Rightarrow> poll_state \<times> event list" where
  "status_command cfg B st now replied =
     (st, Reply (status_message cfg B st now)
            # (case replied of
                 Replied \<Rightarrow> [LogInfo ''User sent /status command'']
               | ReplyFailed m \<Rightarrow> [LogError (''Bot error: '' @ m)]))"

definition check_command :: "config \<Rightarrow> builtins \<Rightarrow> poll_state \<Rightarrow> reply_result \<Rightarrow> poll_env \<Rightarrow> reply_result \<Rightarrow> poll_state \<times> event list" where
  "check_command cfg B st replied env replied' =
     (case replied of
        ReplyFailed m \<Rightarrow>
          (st, [Reply (emoji_magnifier @ '' Running manual check...''),
                LogError (''Bot error: '' @ m)])
      | Replied \<Rightarrow>
          (case pollHttpEndpoint cfg B st env of
             (st', effects) \<Rightarrow>
               (st', [Reply (emoji_magnifier @ '' Running manual check...''),
                      LogInfo ''User sent /check command, executing manual check'']
                     @ effects
                     @ Reply (emoji_unchanged @ '' Manual check completed'')
                       # (case replied' of
                            Replied \<Rightarrow> []
                          | ReplyFailed m \<Rightarrow> [LogError (''Bot error: '' @ m)]))))"

definition cron :: "config \<Rightarrow> builtins \<Rightarrow> string" where
  "cron cfg B = ''*/'' @ num_str B (REQUEST_INTERVAL cfg) @ '' * * * * *''"

text \<open>\<open>main\<close>: start the bot when there is one, poll once, schedule the job. \<open>env\<close>
  is what the immediate poll reads from outside.\<close>

definition main :: "config \<Rightarrow> builtins \<Rightarrow> poll_env \<Rightarrow> poll_state \<times> event list" where
  "main cfg B env =
     (case pollHttpEndpoint cfg B initial_state env of
        (st, effects) \<Rightarrow>
          (st, LogInfo ''HTTP polling service started''
                 # (if bot cfg then [BotStart, LogInfo ''Telegram bot started''] else [])
                 @ effects
                 @ [ScheduleJob (cron cfg B),
                    LogInfo (''Scheduled task set up, polling every ''
                       @ num_str B (REQUEST_INTERVAL cfg) @ '' seconds'')]))"

section \<open>The three ways a fetch ends\<close>

text \<open>
  Lines 108 to 125 end in one of three ways: the candidate document and its id were
  read; the status was not 200; or something threw (the request itself, or reading
  \<open>data[0]\<close> or \<open>id\<close> from the body) and the \<open>catch\<close> takes over.
\<close>

datatype poll_result = Success jsval jsval | HttpError int | TransportError string

definition fetch_result :: "axios_result \<Rightarrow> poll_result" where
  "fetch_result r =
     (case r of
        Rejected m \<Rightarrow> TransportError m
      | Response status body \<Rightarrow>
          if status \<noteq> 200 then HttpError status
          else (case read_candidate body of
                  Inl e \<Rightarrow> TransportError (message e)
                | Inr (responseData, currentId) \<Rightarrow> Success responseData currentId))"

fun failed :: "poll_result \<Rightarrow> bool" where
  "failed (Success d k) = False"
| "failed (HttpError status) = True"
| "failed (TransportError m) = True"

text \<open>The candidate of the most recent successful cycle of a run, if there was one.\<close>

fun last_success :: "poll_env list \<Rightarrow> (jsval \<times> jsval) option" where
  "last_success [] = None"
| "last_success (env # envs) =
     (case last_success envs of
        Some c \<Rightarrow> Some c
      | None \<Rightarrow>
          (case fetch_result (axios_get env) of
             Success d k \<Rightarrow> Some (d, k)
           | HttpError status \<Rightarrow> None
           | TransportError m \<Rightarrow> None))"

text \<open>A body without the \<open>data\<close> field (or with \<open>null\<close> there), and a body whose
  \<open>data\<close> is the empty array.\<close>

definition lacks_data :: "jsval \<Rightarrow> bool" where
  "lacks_data body =
     (case get_prop body ''data'' of
        Inl e \<Rightarrow> True
      | Inr v \<Rightarrow> v = JUndefined \<or> v = JNull)"

definition empty_data :: "jsval \<Rightarrow> bool" where
  "empty_data body =
     (case get_prop body ''data'' of
        Inr (JArr r []) \<Rightarrow> True
      | _ \<Rightarrow> False)"

text \<open>A later poll repeats document \<open>d\<close> when it succeeds with a document of the same
  content.\<close>

definition repeats :: "jsval \<Rightarrow> poll_env \<Rightarrow> bool" where
  "repeats d e =
     (case fetch_result (axios_get e) of
        Success d' k' \<Rightarrow> content_of d' = content_of d
      | HttpError status \<Rightarrow> False
      | TransportError m \<Rightarrow> False)"

section \<open>Invocations that overlap\<close>

text \<open>
  \<open>pollHttpEndpoint\<close> is an async function. A call runs until its first \<open>await\<close>
  and returns control to the event loop; what follows an \<open>await\<close> runs, without
  interruption, when the awaited promise has settled. Between two awaits of one
  invocation other callbacks run, among them other invocations of \<open>pollHttpEndpoint\<close>:
  the scheduled job and the \<open>/check\<close> command both call it, and nothing in the program
  keeps a call from starting while another is suspended.

  An invocation is suspended at \<open>await axios.get(...)\<close>; or inside
  \<open>sendTelegramMessage\<close> at \<open>await bot.api.sendMessage(...)\<close>; or at
  \<open>await sendTelegramMessage(message)\<close> with that promise settled; or it has
  returned. The suspended states keep the locals \<open>responseData\<close>, \<open>currentId\<close>
  and \<open>hasChanged\<close>.
\<close>

datatype task =
    AwaitGet
  | AwaitApi jsval jsval bool
  | AwaitSent jsval jsval bool
  | Returned

record system =
  vars :: poll_state
  tasks :: "task list"
  trace :: "event list"

definition idle :: system where
  "idle = \<lparr>vars = initial_state, tasks = [], trace = []\<rparr>"

text \<open>What the event loop runs next: a trigger calls \<open>pollHttpEndpoint()\<close>; the request
  of invocation \<open>i\<close> settles (with the clock, read if a message is built); its Telegram
  API call settles; it resumes after \<open>sendTelegramMessage\<close>.\<close>

datatype action =
    Invoke
  | GetSettled nat axios_result string
  | ApiSettled nat send_result
  | Resume nat

text \<open>\<open>sendTelegramMessage\<close> up to its \<open>await\<close> (with whether it reaches it), and after
  it.\<close>

definition send_begin :: "config \<Rightarrow> string \<Rightarrow> event list \<times> bool" where
  "send_begin cfg msg =
     (if \<not> bot cfg \<or> \<not> env_truthy (TELEGRAM_CHAT_ID cfg) then
        ([LogError ''Telegram configuration missing, cannot send message''], False)
      else ([BotSendMessage (env_str (TELEGRAM_CHAT_ID cfg)) msg], True))"

definition send_end :: "send_result \<Rightarrow> event list" where
  "send_end api =
     (case api of
        Delivered \<Rightarrow> [LogInfo ''Telegram message sent successfully'']
      | SendFailed m \<Rightarrow> [LogError (''Failed to send Telegram message: '' @ m)])"

text \<open>Lines 113 to 134, run when the request has settled, up to the next \<open>await\<close> or
  to the return: the variables, the invocation's new state and the effects.\<close>

definition on_get :: "config \<Rightarrow> builtins \<Rightarrow> poll_state \<Rightarrow> axios_result \<Rightarrow> string \<Rightarrow> poll_state \<times> task \<times> event list" where
  "on_get cfg B st r now =
     (case r of
        Rejected m \<Rightarrow> (st, Returned, [LogError (''HTTP request exception: '' @ m)])
      | Response status body \<Rightarrow>
          if status \<noteq> 200 then
            (st, Returned, [LogError (''HTTP request failed: Status code '' @ num_str B (Some status))])
          else
            (case read_candidate body of
               Inl e \<Rightarrow> (st, Returned, [LogError (''HTTP request exception: '' @ message e)])
             | Inr (responseData, currentId) \<Rightarrow>
                 (let changed = hasChanged currentId st
                  in if changed then
                       (let msg = change_message B now changed responseData
                        in case send_begin cfg msg of
                             (effects, awaiting) \<Rightarrow>
                               (st,
                                if awaiting then AwaitApi responseData currentId changed
                                else AwaitSent responseData currentId changed,
                                Notify msg # effects))
                     else
                       (\<lparr>lastResponseId = currentId, lastResponse = responseData\<rparr>,
                        Returned,
                        [LogInfo (''Polling completed, data ''
                           @ (if changed then ''updated'' else ''unchanged''))]))))"

text \<open>Lines 137 to 141, run when the invocation resumes after the notification.\<close>

definition on_resume :: "jsval \<Rightarrow> jsval \<Rightarrow> bool \<Rightarrow> poll_state \<times> task \<times> event list" where
  "on_resume responseData currentId changed =
     (\<lparr>lastResponseId = currentId, lastResponse = responseData\<rparr>,
      Returned,
      [LogInfo (''Polling completed, data '' @ (if changed then ''updated'' else ''unchanged''))])"

definition step :: "config \<Rightarrow> builtins \<Rightarrow> system \<Rightarrow> action \<Rightarrow> system option" where
  "step cfg B s a =
     (case a of
        Invoke \<Rightarrow>
          Some (s\<lparr>tasks := tasks s @ [AwaitGet], trace := trace s @ poll_started cfg\<rparr>)
      | GetSettled i r now \<Rightarrow>
          if i < length (tasks s) then
            (case tasks s ! i of
               AwaitGet \<Rightarrow>
                 (case on_get cfg B (vars s) r now of
                    (st, t, effects) \<Rightarrow>
                      Some \<lparr>vars = st, tasks = (tasks s)[i := t], trace = trace s @ effects\<rparr>)
             | AwaitApi d k c \<Rightarrow> None
             | AwaitSent d k c \<Rightarrow> None
             | Returned \<Rightarrow> None)
          else None
      | ApiSettled i api \<Rightarrow>
          if i < length (tasks s) then
            (case tasks s ! i of
               AwaitGet \<Rightarrow> None
             | AwaitApi d k c \<Rightarrow>
                 Some (s\<lparr>tasks := (tasks s)[i := AwaitSent d k c],
                         trace := trace s @ send_end api\<rparr>)
             | AwaitSent d k c \<Rightarrow> None
             | Returned \<Rightarrow> None)
          else None
      | Resume i \<Rightarrow>
          if i < length (tasks s) then
            (case tasks s ! i of
               AwaitGet \<Rightarrow> None
             | AwaitApi d k c \<Rightarrow> None
             | AwaitSent d k c \<Rightarrow>
                 (case on_resume d k c of
                    (st, t, effects) \<Rightarrow>
                      Some \<lparr>vars = st, tasks = (tasks s)[i := t], trace = trace s @ effects\<rparr>)
             | Returned \<Rightarrow> None)
          else None)"

fun exec :: "config \<Rightarrow> builtins \<Rightarrow> system \<Rightarrow> action list \<Rightarrow> system option" where
  "exec cfg B s [] = Some s"
| "exec cfg B s (a # as) =
     (case step cfg B s a of
        None \<Rightarrow> None
      | Some s' \<Rightarrow> exec cfg B s' as)"

text \<open>The invocations that have started and not returned.\<close>

definition in_flight :: "system \<Rightarrow> nat" where
  "in_flight s = length (filter (\<lambda>t. t \<noteq> Returned) (tasks s))"

text \<open>The stored pair belongs together, and so do the locals of every suspended
  invocation.\<close>

fun task_coupled :: "task \<Rightarrow> bool" where
  "task_coupled AwaitGet = True"
| "task_coupled (AwaitApi d k c) = (get_prop d ''id'' = Inr k)"
| "task_coupled (AwaitSent d k c) = (get_prop d ''id'' = Inr k)"
| "task_coupled Returned = True"

definition coupled :: "system \<Rightarrow> bool" where
  "coupled s =
     ((vars s = initial_state
         \<or> get_prop (lastResponse (vars s)) ''id'' = Inr (lastResponseId (vars s)))
      \<and> list_all task_coupled (tasks s))"

text \<open>What a run shows: the variables, the invocations and the messages handed to
  \<open>sendTelegramMessage\<close>.\<close>

definition outcome :: "system option \<Rightarrow> (poll_state \<times> task list \<times> string list) option" where
  "outcome r = map_option (\<lambda>s. (vars s, tasks s, notifications (trace s))) r"

text \<open>The actions of one invocation, number \<open>i\<close>, that runs from call to return with
  nothing in between.\<close>

definition alone :: "config \<Rightarrow> poll_state \<Rightarrow> poll_env \<Rightarrow> nat \<Rightarrow> action list" where
  "alone cfg st env i =
     [Invoke, GetSettled i (axios_get env) (date_now env)]
     @ (case fetch_result (axios_get env) of
          Success d k \<Rightarrow>
            if hasChanged k st then
              (if bot cfg \<and> env_truthy (TELEGRAM_CHAT_ID cfg) then [ApiSettled i (send_api env)]
               else [])
              @ [Resume i]
            else []
        | HttpError status \<Rightarrow> []
        | TransportError m \<Rightarrow> [])"

section \<open>Values used in the examples\<close>

definition demo_config :: config where
  "demo_config =
     \<lparr>API_URL = Some ''https://example.org/items'', REQUEST_INTERVAL = Some 300,
      REQUEST_TIMEOUT = Some 30, REQUEST_HEADERS = None,
      TELEGRAM_BOT_TOKEN = Some ''123:abc'', TELEGRAM_CHAT_ID = Some ''42'',
      NOTIFY_ON_CHANGE_ONLY = True\<rparr>"

definition demo_builtins :: builtins where
  "demo_builtins = \<lparr>JSON_stringify = (\<lambda>v. ''{..}''), js_String = (\<lambda>v. ''..'')\<rparr>"

text \<open>The document \<open>{id: i, value: n}\<close> at address \<open>r\<close>, and the body
  \<open>{data: [d]}\<close> that carries it.\<close>

definition doc :: "nat \<Rightarrow> jsval \<Rightarrow> rat \<Rightarrow> jsval" where
  "doc r i n = JObj r [(units ''id'', i), (units ''value'', JNum n)]"

definition body_of :: "nat \<Rightarrow> jsval list \<Rightarrow> jsval" where
  "body_of r ds = JObj r [(units ''data'', JArr (Suc r) ds)]"

definition fetched :: "axios_result \<Rightarrow> string \<Rightarrow> poll_env" where
  "fetched r t = \<lparr>axios_get = r, date_now = t, send_api = Delivered\<rparr>"

definition state_r2 :: poll_state where
  "state_r2 = \<lparr>lastResponseId = JStr (units ''r2''), lastResponse = doc 5 (JStr (units ''r2'')) 99\<rparr>"

text \<open>Four polls: \<open>{id: "r1", value: 10}\<close>, then \<open>{id: "r1", value: 99}\<close>, then
  \<open>{id: "r2", value: 99}\<close>, then a timeout.\<close>

definition poll_r1_10 :: poll_env where
  "poll_r1_10 = fetched (Response 200 (body_of 1 [doc 3 (JStr (units ''r1'')) 10])) ''09:00:00''"

definition poll_r1_99 :: poll_env where
  "poll_r1_99 = fetched (Response 200 (body_of 11 [doc 13 (JStr (units ''r1'')) 99])) ''09:05:00''"

definition poll_r2_99 :: poll_env where
  "poll_r2_99 = fetched (Response 200 (body_of 21 [doc 23 (JStr (units ''r2'')) 99])) ''09:10:00''"

definition poll_timeout :: poll_env where
  "poll_timeout = fetched (Rejected ''timeout of 30000ms exceeded'') ''09:15:00''"

text \<open>Two polls that return \<open>{id: [1], value: 10}\<close>, each parsed anew.\<close>

definition poll_list_a :: poll_env where
  "poll_list_a = fetched (Response 200 (body_of 1 [doc 3 (JArr 4 [JNum 1]) 10])) ''09:00:00''"

definition poll_list_b :: poll_env where
  "poll_list_b = fetched (Response 200 (body_of 11 [doc 13 (JArr 14 [JNum 1]) 10])) ''09:05:00''"

text \<open>A poll that returns \<open>{id: null, value: 10}\<close>.\<close>

definition poll_null_id :: poll_env where
  "poll_null_id = fetched (Response 200 (body_of 1 [doc 3 JNull 10])) ''09:00:00''"

text \<open>A configuration without the URL, one without the URL and the bot token, and one
  with the URL and without the bot token.\<close>

definition no_url_config :: config where
  "no_url_config = demo_config\<lparr>API_URL := None\<rparr>"

definition bare_config :: config where
  "bare_config = demo_config\<lparr>API_URL := None, TELEGRAM_BOT_TOKEN := None\<rparr>"

definition no_token_config :: config where
  "no_token_config = demo_config\<lparr>TELEGRAM_BOT_TOKEN := None\<rparr>"

definition poll_no_url :: poll_env where
  "poll_no_url = fetched (Rejected ''Invalid URL'') ''09:00:00''"

text \<open>Two invocations that overlap: both are called before either request settles, and
  both requests settle before either Telegram call does.\<close>

definition overlapped :: "action list" where
  "overlapped =
     [Invoke, Invoke,
      GetSettled 0 (axios_get poll_r1_10) (date_now poll_r1_10),
      GetSettled 1 (axios_get poll_r1_99) (date_now poll_r1_99),
      ApiSettled 0 Delivered, Resume 0,
      ApiSettled 1 Delivered, Resume 1]"

text \<open>A system with three invocations in flight, one at each \<open>await\<close>.\<close>

definition waiting :: system where
  "waiting =
     \<lparr>vars = \<lparr>lastResponseId = JStr (units ''r1''), lastResponse = doc 3 (JStr (units ''r1'')) 10\<rparr>,
      tasks = [AwaitGet, AwaitApi (doc 23 (JStr (units ''r2'')) 99) (JStr (units ''r2'')) True,
               AwaitSent (doc 33 (JStr (units ''r3'')) 7) (JStr (units ''r3'')) True],
      trace = []\<rparr>"

section \<open>Strings and numbers\<close>

lemma unat_unit_of: "unat (unit_of c) = of_char c"
proof -
  have "(of_char c :: nat) < 256"
    by (metis of_char_mod_256 mod_less_divisor zero_less_numeral)
  then have "(of_char c :: nat) < 2 ^ 16"
    by (simp add: less_trans [of _ 256])
  then show ?thesis
    unfolding unit_of_def by (simp add: unat_of_nat take_bit_nat_eq_self)
qed

lemma unit_of_eq_iff [simp]: "unit_of c = unit_of d \<longleftrightarrow> c = d"
  by (metis unat_unit_of of_char_eq_iff)

lemma units_eq_iff [simp]: "units a = units b \<longleftrightarrow> a = b"
  unfolding units_def by (simp add: inj_map_eq_map inj_def)

lemma units_Nil [simp]: "units s = [] \<longleftrightarrow> s = []"
  by (simp add: units_def)

lemma num_str_300: "num_str B (Some 300) = ''300''"
  by (simp add: show_int_def show_nat.simps)

section \<open>What one cycle does\<close>

lemma notifications_append: "notifications (xs @ ys) = notifications xs @ notifications ys"
  by (induction xs rule: notifications.induct) simp_all

lemma api_sends_append: "api_sends (xs @ ys) = api_sends xs @ api_sends ys"
  by (induction xs rule: api_sends.induct) simp_all

lemma notifications_started: "notifications (poll_started cfg) = []"
  by (simp add: poll_started_def)

lemma api_sends_started: "api_sends (poll_started cfg) = []"
  by (simp add: poll_started_def)

lemma notifications_send: "notifications (fst (sendTelegramMessage cfg msg api)) = []"
  by (simp add: sendTelegramMessage_def split: send_result.split)

lemma poll_transport_error:
  assumes "fetch_result (axios_get env) = TransportError m"
  shows "pollHttpEndpoint cfg B st env =
           (st, poll_started cfg @ [LogError (''HTTP request exception: '' @ m)])"
  using assms
  by (auto simp: fetch_result_def pollHttpEndpoint_def poll_try_def
           split: axios_result.splits sum.splits if_splits)

lemma poll_http_error:
  assumes "fetch_result (axios_get env) = HttpError status"
  shows "pollHttpEndpoint cfg B st env =
           (st, poll_started cfg
                  @ [LogError (''HTTP request failed: Status code '' @ num_str B (Some status))])"
  using assms
  by (auto simp: fetch_result_def pollHttpEndpoint_def poll_try_def
           split: axios_result.splits sum.splits if_splits)

lemma poll_success:
  assumes "fetch_result (axios_get env) = Success d k"
  shows "pollHttpEndpoint cfg B st env =
           (\<lparr>lastResponseId = k, lastResponse = d\<rparr>,
            poll_started cfg
              @ (if hasChanged k st then
                   Notify (change_message B (date_now env) True d)
                     # fst (sendTelegramMessage cfg (change_message B (date_now env) True d)
                              (send_api env))
                 else [])
              @ [LogInfo (''Polling completed, data ''
                   @ (if hasChanged k st then ''updated'' else ''unchanged''))])"
  using assms
  by (auto simp: fetch_result_def pollHttpEndpoint_def poll_try_def Let_def
           split: axios_result.splits sum.splits if_splits)

lemma poll_success_state:
  assumes "fetch_result (axios_get env) = Success d k"
  shows "fst (pollHttpEndpoint cfg B st env) = \<lparr>lastResponseId = k, lastResponse = d\<rparr>"
  by (simp add: poll_success [OF assms])

lemma poll_success_notifications:
  assumes "fetch_result (axios_get env) = Success d k"
  shows "notifications (snd (pollHttpEndpoint cfg B st env)) =
           (if hasChanged k st then [change_message B (date_now env) True d] else [])"
  by (simp add: poll_success [OF assms] notifications_append notifications_started
        notifications_send)

lemma poll_failed_state:
  assumes "failed (fetch_result (axios_get env))"
  shows "fst (pollHttpEndpoint cfg B st env) = st"
  using assms
  by (cases "fetch_result (axios_get env)") (simp_all add: poll_http_error poll_transport_error)

lemma poll_failed_notifications:
  assumes "failed (fetch_result (axios_get env))"
  shows "notifications (snd (pollHttpEndpoint cfg B st env)) = []"
  using assms
  by (cases "fetch_result (axios_get env)")
     (simp_all add: poll_http_error poll_transport_error notifications_append
        notifications_started)

lemma poll_failed_api_sends:
  assumes "failed (fetch_result (axios_get env))"
  shows "api_sends (snd (pollHttpEndpoint cfg B st env)) = []"
  using assms
  by (cases "fetch_result (axios_get env)")
     (simp_all add: poll_http_error poll_transport_error api_sends_append api_sends_started)

section \<open>Failed cycles\<close>

text \<open>
  C2. When the request throws, or returns a status other than 200, or the candidate
  cannot be read from the body, the cycle leaves \<open>lastResponseId\<close> and
  \<open>lastResponse\<close> as they were, \<open>sendTelegramMessage\<close> is not called and no message
  goes to the Telegram API.
\<close>

theorem failed_cycle_keeps_state:
  assumes "fetch_result (axios_get env) = HttpError status
         \<or> fetch_result (axios_get env) = TransportError m"
  shows "fst (pollHttpEndpoint cfg B st env) = st
       \<and> notifications (snd (pollHttpEndpoint cfg B st env)) = []
       \<and> api_sends (snd (pollHttpEndpoint cfg B st env)) = []"
proof -
  from assms have "failed (fetch_result (axios_get env))"
    by auto
  then show ?thesis
    by (simp add: poll_failed_state poll_failed_notifications poll_failed_api_sends)
qed

theorem failed_cycle_keeps_state_witness:
  "fetch_result (axios_get poll_timeout)
     = TransportError ''timeout of 30000ms exceeded''
   \<and> fst (pollHttpEndpoint demo_config demo_builtins state_r2
            poll_timeout) = state_r2
   \<and> notifications (snd (pollHttpEndpoint demo_config demo_builtins state_r2
            poll_timeout)) = []
   \<and> api_sends (snd (pollHttpEndpoint demo_config demo_builtins state_r2
            poll_timeout)) = []"
proof -
  have h: "fetch_result (axios_get poll_timeout)
             = TransportError ''timeout of 30000ms exceeded''"
    by (simp add: fetch_result_def fetched_def poll_timeout_def)
  from failed_cycle_keeps_state [of _ 0, OF disjI2, OF h] h show ?thesis
    by blast
qed

section \<open>Change detection\<close>

lemma strict_eq_refl: "strict_eq v v"
  by (cases v) simp_all

lemma strict_eq_null: "strict_eq k JNull = (k = JNull)"
  by (cases k) simp_all

lemma strict_eq_primitive:
  assumes "primitive a \<or> primitive b"
  shows "strict_eq b a = (b = a)"
  using assms by (cases a; cases b) auto

lemma strict_eq_address:
  assumes "\<not> primitive a" and "\<not> primitive b" and "address b \<noteq> address a"
  shows "\<not> strict_eq b a"
  using assms by (cases a; cases b) auto

lemma hasChanged_committed:
  "hasChanged k' \<lparr>lastResponseId = k, lastResponse = d\<rparr> = (\<not> strict_eq k' k)"
  by (simp add: hasChanged_def)

lemma hasChanged_initial: "hasChanged k initial_state = (k \<noteq> JNull)"
  by (simp add: hasChanged_def initial_state_def strict_eq_null)

lemma last_poll_success:
  assumes "fetch_result (axios_get env) = Success d k"
  shows "last (snd (pollHttpEndpoint cfg B st env)) =
           LogInfo (''Polling completed, data ''
              @ (if hasChanged k st then ''updated'' else ''unchanged''))"
  by (simp add: poll_success [OF assms])

lemma fetch_success_id:
  assumes "fetch_result r = Success d k"
  shows "get_prop d ''id'' = Inr k"
  using assms
  by (auto simp: fetch_result_def read_candidate_def
           split: axios_result.splits sum.splits if_splits)

lemma fetch_doc:
  "fetch_result (axios_get (fetched (Response 200 (body_of r [doc r' i n])) t)) =
     Success (doc r' i n) i"
  by (simp add: fetch_result_def fetched_def body_of_def doc_def read_candidate_def)

lemma content_doc:
  "content_of (doc r i n) = CObj [(units ''id'', content_of i), (units ''value'', CNum n)]"
  by (simp add: doc_def)

lemma map_of_content:
  "map_of (map (map_prod id f) fs) key = map_option f (map_of fs key)"
  by (induction fs) auto

lemma get_prop_content:
  assumes "get_prop d key = Inr k" and "get_prop d' key = Inr k'"
      and "content_of d' = content_of d"
  shows "content_of k' = content_of k"
proof (cases d)
  case (JObj r fs)
  with assms(3) obtain r' fs' where d': "d' = JObj r' fs'"
    by (cases d') auto
  with JObj assms(3) have "map (map_prod id content_of) fs' = map (map_prod id content_of) fs"
    by simp
  then have "map_option content_of (map_of fs' (units key)) =
             map_option content_of (map_of fs (units key))"
    by (metis map_of_content)
  with JObj d' assms(1,2) show ?thesis
    by (auto split: option.splits)
qed (use assms in \<open>cases d'; auto\<close>)+

lemma content_primitive:
  assumes "primitive k" and "content_of k' = content_of k"
  shows "k' = k"
  using assms by (cases k; cases k') auto

lemma content_reference:
  assumes "\<not> primitive k" and "content_of k' = content_of k"
  shows "\<not> primitive k'"
  using assms by (cases k; cases k') auto

text \<open>
  C1, as the code has it. Let a cycle fetch document A with id \<open>idA\<close> and commit it,
  and let the next cycle start from that state and fetch document B with id \<open>idB\<close>.
  When one of the two ids is a primitive (\<open>null\<close>, \<open>undefined\<close>, a boolean, a number
  or a string), B counts as changed exactly when the ids differ: \<open>sendTelegramMessage\<close>
  is called (once) in the second cycle exactly then, and the cycle logs "updated"
  exactly then; nothing else of A or B, and nothing of the state before A, enters the
  decision. Ids that are arrays or objects are compared by reference: at different
  addresses they count as changed, whatever they contain.
\<close>

theorem change_detection_by_id:
  assumes "fetch_result (axios_get envA) = Success docA idA"
      and "fetch_result (axios_get envB) = Success docB idB"
  shows "(primitive idA \<or> primitive idB \<longrightarrow>
            hasChanged idB (fst (pollHttpEndpoint cfg B st envA)) = (idB \<noteq> idA)
          \<and> notifications
              (snd (pollHttpEndpoint cfg B (fst (pollHttpEndpoint cfg B st envA)) envB)) =
              (if idB = idA then [] else [change_message B (date_now envB) True docB])
          \<and> last (snd (pollHttpEndpoint cfg B (fst (pollHttpEndpoint cfg B st envA)) envB)) =
              LogInfo (''Polling completed, data ''
                 @ (if idB = idA then ''unchanged'' else ''updated'')))
       \<and> (\<not> primitive idA \<and> \<not> primitive idB \<and> address idB \<noteq> address idA \<longrightarrow>
            hasChanged idB (fst (pollHttpEndpoint cfg B st envA))
          \<and> notifications
              (snd (pollHttpEndpoint cfg B (fst (pollHttpEndpoint cfg B st envA)) envB)) =
              [change_message B (date_now envB) True docB])"
proof -
  have committed: "fst (pollHttpEndpoint cfg B st envA) =
                     \<lparr>lastResponseId = idA, lastResponse = docA\<rparr>"
    by (rule poll_success_state [OF assms(1)])
  have decision: "hasChanged idB (fst (pollHttpEndpoint cfg B st envA)) = (\<not> strict_eq idB idA)"
    by (simp add: committed hasChanged_committed)
  have by_value: "strict_eq idB idA = (idB = idA)" if "primitive idA \<or> primitive idB"
    using that by (rule strict_eq_primitive)
  have by_reference: "\<not> strict_eq idB idA"
    if "\<not> primitive idA \<and> \<not> primitive idB \<and> address idB \<noteq> address idA"
    using that by (simp add: strict_eq_address)
  show ?thesis
    using by_value by_reference
    by (auto simp: decision poll_success_notifications [OF assms(2)]
          last_poll_success [OF assms(2)])
qed

theorem change_detection_by_id_witness:
  "fetch_result (axios_get poll_r1_10) =
     Success (doc 3 (JStr (units ''r1'')) 10) (JStr (units ''r1''))
   \<and> fetch_result (axios_get poll_r1_99) =
       Success (doc 13 (JStr (units ''r1'')) 99) (JStr (units ''r1''))
   \<and> fetch_result (axios_get poll_r2_99) =
       Success (doc 23 (JStr (units ''r2'')) 99) (JStr (units ''r2''))
   \<and> primitive (JStr (units ''r1''))
   \<and> notifications
        (snd (pollHttpEndpoint demo_config demo_builtins
               (fst (pollHttpEndpoint demo_config demo_builtins initial_state poll_r1_10))
               poll_r1_99)) = []
   \<and> last (snd (pollHttpEndpoint demo_config demo_builtins
               (fst (pollHttpEndpoint demo_config demo_builtins initial_state poll_r1_10))
               poll_r1_99)) = LogInfo ''Polling completed, data unchanged''
   \<and> hasChanged (JStr (units ''r2''))
        (fst (pollHttpEndpoint demo_config demo_builtins initial_state poll_r1_99))
   \<and> notifications
        (snd (pollHttpEndpoint demo_config demo_builtins
               (fst (pollHttpEndpoint demo_config demo_builtins initial_state poll_r1_99))
               poll_r2_99)) =
        [change_message demo_builtins ''09:10:00'' True (doc 23 (JStr (units ''r2'')) 99)]
   \<and> last (snd (pollHttpEndpoint demo_config demo_builtins
               (fst (pollHttpEndpoint demo_config demo_builtins initial_state poll_r1_99))
               poll_r2_99)) = LogInfo ''Polling completed, data updated''
   \<and> \<not> primitive (JArr 4 [JNum 1]) \<and> \<not> primitive (JArr 14 [JNum 1])
   \<and> address (JArr 14 [JNum 1]) \<noteq> address (JArr 4 [JNum 1])
   \<and> fetch_result (axios_get poll_list_a) =
       Success (doc 3 (JArr 4 [JNum 1]) 10) (JArr 4 [JNum 1])
   \<and> fetch_result (axios_get poll_list_b) =
       Success (doc 13 (JArr 14 [JNum 1]) 10) (JArr 14 [JNum 1])
   \<and> hasChanged (JArr 14 [JNum 1])
        (fst (pollHttpEndpoint demo_config demo_builtins state_r2 poll_list_a))"
proof -
  have a: "fetch_result (axios_get poll_r1_10) =
             Success (doc 3 (JStr (units ''r1'')) 10) (JStr (units ''r1''))"
    unfolding poll_r1_10_def by (rule fetch_doc)
  have b: "fetch_result (axios_get poll_r1_99) =
             Success (doc 13 (JStr (units ''r1'')) 99) (JStr (units ''r1''))"
    unfolding poll_r1_99_def by (rule fetch_doc)
  have c: "fetch_result (axios_get poll_r2_99) =
             Success (doc 23 (JStr (units ''r2'')) 99) (JStr (units ''r2''))"
    unfolding poll_r2_99_def by (rule fetch_doc)
  have la: "fetch_result (axios_get poll_list_a) =
              Success (doc 3 (JArr 4 [JNum 1]) 10) (JArr 4 [JNum 1])"
    unfolding poll_list_a_def by (rule fetch_doc)
  have lb: "fetch_result (axios_get poll_list_b) =
              Success (doc 13 (JArr 14 [JNum 1]) 10) (JArr 14 [JNum 1])"
    unfolding poll_list_b_def by (rule fetch_doc)
  have t: "date_now poll_r2_99 = ''09:10:00''"
    by (simp add: poll_r2_99_def fetched_def)
  from change_detection_by_id [OF a b, of demo_config demo_builtins initial_state]
       change_detection_by_id [OF b c, of demo_config demo_builtins initial_state]
       change_detection_by_id [OF la lb, of demo_config demo_builtins state_r2]
       a b c la lb t
  show ?thesis
    by simp
qed

text \<open>
  C1 for any two documents fails at two polls that return \<open>{id: [1], value: 10}\<close>:
  the two ids have the same content, but each response is parsed into an array of its
  own, \<open>!==\<close> compares the references, and the second cycle counts the document as
  changed and calls \<open>sendTelegramMessage\<close>.
\<close>

theorem equal_array_ids_counterexample:
  "fetch_result (axios_get poll_list_a) =
     Success (doc 3 (JArr 4 [JNum 1]) 10) (JArr 4 [JNum 1])
   \<and> fetch_result (axios_get poll_list_b) =
       Success (doc 13 (JArr 14 [JNum 1]) 10) (JArr 14 [JNum 1])
   \<and> content_of (JArr 14 [JNum 1]) = content_of (JArr 4 [JNum 1])
   \<and> content_of (doc 13 (JArr 14 [JNum 1]) 10) = content_of (doc 3 (JArr 4 [JNum 1]) 10)
   \<and> hasChanged (JArr 14 [JNum 1])
        (fst (pollHttpEndpoint demo_config demo_builtins initial_state poll_list_a))
   \<and> notifications
        (snd (pollHttpEndpoint demo_config demo_builtins
               (fst (pollHttpEndpoint demo_config demo_builtins initial_state poll_list_a))
               poll_list_b)) =
        [change_message demo_builtins ''09:05:00'' True (doc 13 (JArr 14 [JNum 1]) 10)]"
proof -
  have la: "fetch_result (axios_get poll_list_a) =
              Success (doc 3 (JArr 4 [JNum 1]) 10) (JArr 4 [JNum 1])"
    unfolding poll_list_a_def by (rule fetch_doc)
  have lb: "fetch_result (axios_get poll_list_b) =
              Success (doc 13 (JArr 14 [JNum 1]) 10) (JArr 14 [JNum 1])"
    unfolding poll_list_b_def by (rule fetch_doc)
  have t: "date_now poll_list_b = ''09:05:00''"
    by (simp add: poll_list_b_def fetched_def)
  show ?thesis
    by (simp add: la lb t poll_success_state [OF la] poll_success_notifications [OF lb]
          hasChanged_committed content_doc)
qed

section \<open>The first cycle\<close>

lemma run_cycles_fst:
  "fst (run_cycles cfg B st (e # es)) =
     fst (run_cycles cfg B (fst (pollHttpEndpoint cfg B st e)) es)"
  by (simp split: prod.splits)

lemma run_cycles_snd:
  "snd (run_cycles cfg B st (e # es)) =
     snd (pollHttpEndpoint cfg B st e)
       @ snd (run_cycles cfg B (fst (pollHttpEndpoint cfg B st e)) es)"
  by (simp split: prod.splits)

lemma run_cycles_repeat:
  assumes "\<forall>e \<in> set envs. repeats d e"
      and "get_prop d ''id'' = Inr k"
      and "primitive k"
      and "lastResponseId st = k"
  shows "notifications (snd (run_cycles cfg B st envs)) = []"
  using assms(1,4)
proof (induction envs arbitrary: st)
  case Nil
  then show ?case by simp
next
  case (Cons e envs)
  from Cons.prems(1) have "repeats d e"
    by simp
  then obtain d' k' where e: "fetch_result (axios_get e) = Success d' k'"
    and same: "content_of d' = content_of d"
    by (auto simp: repeats_def split: poll_result.splits)
  from e have "get_prop d' ''id'' = Inr k'"
    by (rule fetch_success_id)
  from assms(2) this same have "content_of k' = content_of k"
    by (rule get_prop_content)
  with assms(3) have k': "k' = k"
    by (rule content_primitive)
  have unchanged: "\<not> hasChanged k' st"
    using Cons.prems(2) k' by (simp add: hasChanged_def strict_eq_refl)
  have here: "notifications (snd (pollHttpEndpoint cfg B st e)) = []"
    by (simp add: poll_success_notifications [OF e] unchanged)
  have "lastResponseId (fst (pollHttpEndpoint cfg B st e)) = k"
    by (simp add: poll_success_state [OF e] k')
  with Cons.IH [of "fst (pollHttpEndpoint cfg B st e)"] Cons.prems(1)
  have later: "notifications (snd (run_cycles cfg B (fst (pollHttpEndpoint cfg B st e)) envs)) = []"
    by simp
  show ?case
    using here later
    by (simp only: run_cycles_snd notifications_append append_Nil)
qed

text \<open>
  C3, as the code has it, for cycles that run one after the other. From the initial
  state (\<open>lastResponseId = null\<close>), a successful fetch is changed exactly when the
  candidate's id is not \<open>null\<close>, and then the first cycle calls
  \<open>sendTelegramMessage\<close>, once. When the id is a primitive and later polls return
  documents of the same content, any number of times, no later cycle calls it: the
  whole run has exactly that one call, and none when the id is \<open>null\<close>. When the id
  is an array or an object, a later poll that returns the same content, parsed to
  another address, is changed again and calls it again.
\<close>

theorem first_cycle_notifies_once:
  assumes "fetch_result (axios_get env) = Success d k"
      and "\<forall>e \<in> set envs. repeats d e"
  shows "hasChanged k initial_state = (k \<noteq> JNull)
       \<and> notifications (snd (pollHttpEndpoint cfg B initial_state env)) =
           (if k = JNull then [] else [change_message B (date_now env) True d])
       \<and> (primitive k \<longrightarrow>
            notifications (snd (run_cycles cfg B initial_state (env # envs))) =
              (if k = JNull then [] else [change_message B (date_now env) True d]))
       \<and> (\<not> primitive k \<and> fetch_result (axios_get e') = Success d' k'
            \<and> content_of d' = content_of d \<and> address k' \<noteq> address k \<longrightarrow>
            notifications
              (snd (pollHttpEndpoint cfg B (fst (pollHttpEndpoint cfg B initial_state env)) e')) =
              [change_message B (date_now e') True d'])"
proof -
  have id: "get_prop d ''id'' = Inr k"
    using assms(1) by (rule fetch_success_id)
  have committed: "fst (pollHttpEndpoint cfg B initial_state env) =
                     \<lparr>lastResponseId = k, lastResponse = d\<rparr>"
    by (rule poll_success_state [OF assms(1)])
  have first: "notifications (snd (pollHttpEndpoint cfg B initial_state env)) =
                 (if k = JNull then [] else [change_message B (date_now env) True d])"
    by (simp add: poll_success_notifications [OF assms(1)] hasChanged_initial)
  have repeated: "notifications (snd (run_cycles cfg B initial_state (env # envs))) =
          (if k = JNull then [] else [change_message B (date_now env) True d])"
    if "primitive k"
  proof -
    have "lastResponseId (fst (pollHttpEndpoint cfg B initial_state env)) = k"
      by (simp add: committed)
    from run_cycles_repeat [OF assms(2) id that this]
    have "notifications
            (snd (run_cycles cfg B (fst (pollHttpEndpoint cfg B initial_state env)) envs)) = []" .
    then show ?thesis
      by (simp only: run_cycles_snd notifications_append first append_Nil2)
  qed
  have again: "notifications
              (snd (pollHttpEndpoint cfg B (fst (pollHttpEndpoint cfg B initial_state env)) e')) =
              [change_message B (date_now e') True d']"
    if "\<not> primitive k" and e': "fetch_result (axios_get e') = Success d' k'"
      and same: "content_of d' = content_of d" and "address k' \<noteq> address k"
  proof -
    from e' have "get_prop d' ''id'' = Inr k'"
      by (rule fetch_success_id)
    from id this same have "content_of k' = content_of k"
      by (rule get_prop_content)
    with that(1) have "\<not> primitive k'"
      by (rule content_reference)
    with that(1,4) have "\<not> strict_eq k' k"
      by (simp add: strict_eq_address)
    then show ?thesis
      by (simp add: poll_success_notifications [OF e'] committed hasChanged_committed)
  qed
  from first repeated again show ?thesis
    by (simp add: hasChanged_initial)
qed

theorem first_cycle_notifies_once_witness:
  "fetch_result (axios_get poll_r1_10) =
     Success (doc 3 (JStr (units ''r1'')) 10) (JStr (units ''r1''))
   \<and> list_all (repeats (doc 3 (JStr (units ''r1'')) 10))
        [fetched (Response 200 (body_of 11 [doc 13 (JStr (units ''r1'')) 10])) ''09:05:00'',
         fetched (Response 200 (body_of 21 [doc 23 (JStr (units ''r1'')) 10])) ''09:10:00'']
   \<and> primitive (JStr (units ''r1''))
   \<and> hasChanged (JStr (units ''r1'')) initial_state
   \<and> notifications (snd (run_cycles demo_config demo_builtins initial_state
        [poll_r1_10,
         fetched (Response 200 (body_of 11 [doc 13 (JStr (units ''r1'')) 10])) ''09:05:00'',
         fetched (Response 200 (body_of 21 [doc 23 (JStr (units ''r1'')) 10])) ''09:10:00''])) =
        [change_message demo_builtins ''09:00:00'' True (doc 3 (JStr (units ''r1'')) 10)]
   \<and> fetch_result (axios_get poll_list_a) =
       Success (doc 3 (JArr 4 [JNum 1]) 10) (JArr 4 [JNum 1])
   \<and> \<not> primitive (JArr 4 [JNum 1])
   \<and> fetch_result (axios_get poll_list_b) =
       Success (doc 13 (JArr 14 [JNum 1]) 10) (JArr 14 [JNum 1])
   \<and> content_of (doc 13 (JArr 14 [JNum 1]) 10) = content_of (doc 3 (JArr 4 [JNum 1]) 10)
   \<and> address (JArr 14 [JNum 1]) \<noteq> address (JArr 4 [JNum 1])
   \<and> notifications
        (snd (pollHttpEndpoint demo_config demo_builtins
               (fst (pollHttpEndpoint demo_config demo_builtins initial_state poll_list_a))
               poll_list_b)) =
        [change_message demo_builtins ''09:05:00'' True (doc 13 (JArr 14 [JNum 1]) 10)]"
proof -
  let ?again = "fetched (Response 200 (body_of 11 [doc 13 (JStr (units ''r1'')) 10])) ''09:05:00''"
  let ?third = "fetched (Response 200 (body_of 21 [doc 23 (JStr (units ''r1'')) 10])) ''09:10:00''"
  have a: "fetch_result (axios_get poll_r1_10) =
             Success (doc 3 (JStr (units ''r1'')) 10) (JStr (units ''r1''))"
    unfolding poll_r1_10_def by (rule fetch_doc)
  have r: "repeats (doc 3 (JStr (units ''r1'')) 10) ?again"
          "repeats (doc 3 (JStr (units ''r1'')) 10) ?third"
    by (simp_all add: repeats_def fetch_doc content_doc)
  then have c: "\<forall>e \<in> set [?again, ?third]. repeats (doc 3 (JStr (units ''r1'')) 10) e"
    by simp
  have t: "date_now poll_r1_10 = ''09:00:00''"
    by (simp add: poll_r1_10_def fetched_def)
  have la: "fetch_result (axios_get poll_list_a) =
              Success (doc 3 (JArr 4 [JNum 1]) 10) (JArr 4 [JNum 1])"
    unfolding poll_list_a_def by (rule fetch_doc)
  have lb: "fetch_result (axios_get poll_list_b) =
              Success (doc 13 (JArr 14 [JNum 1]) 10) (JArr 14 [JNum 1])"
    unfolding poll_list_b_def by (rule fetch_doc)
  have same: "content_of (doc 13 (JArr 14 [JNum 1]) 10) = content_of (doc 3 (JArr 4 [JNum 1]) 10)"
    by (simp add: content_doc)
  have tb: "date_now poll_list_b = ''09:05:00''"
    by (simp add: poll_list_b_def fetched_def)
  have none: "\<forall>e \<in> set []. repeats (doc 3 (JArr 4 [JNum 1]) 10) e"
    by simp
  from first_cycle_notifies_once
         [where cfg = demo_config and B = demo_builtins, OF a c]
       first_cycle_notifies_once
         [where cfg = demo_config and B = demo_builtins and e' = poll_list_b
            and d' = "doc 13 (JArr 14 [JNum 1]) 10" and k' = "JArr 14 [JNum 1]", OF la none]
       a r t la lb same tb
  show ?thesis
    by simp
qed

text \<open>
  C3 for every candidate document fails at \<open>{id: null, value: 10}\<close>: the stored id
  starts as \<open>null\<close>, \<open>null !== null\<close> is false, and the first cycle commits the
  document without calling \<open>sendTelegramMessage\<close>.
\<close>

theorem first_cycle_null_id_counterexample:
  "fetch_result (axios_get poll_null_id) = Success (doc 3 JNull 10) JNull
   \<and> notifications (snd (pollHttpEndpoint demo_config demo_builtins initial_state poll_null_id)) = []
   \<and> fst (pollHttpEndpoint demo_config demo_builtins initial_state poll_null_id) =
       \<lparr>lastResponseId = JNull, lastResponse = doc 3 JNull 10\<rparr>"
proof -
  have a: "fetch_result (axios_get poll_null_id) = Success (doc 3 JNull 10) JNull"
    unfolding poll_null_id_def by (rule fetch_doc)
  show ?thesis
    by (simp add: a poll_success_notifications [OF a] poll_success_state [OF a]
          hasChanged_initial)
qed

section \<open>Committing\<close>

lemma api_sends_poll_unchanged:
  assumes "fetch_result (axios_get env) = Success d k"
      and "\<not> hasChanged k st"
  shows "api_sends (snd (pollHttpEndpoint cfg B st env)) = []"
  by (simp add: poll_success [OF assms(1)] assms(2) api_sends_append api_sends_started)

text \<open>
  C4. A successful fetch whose id equals the stored one calls \<open>sendTelegramMessage\<close>
  not at all and sends nothing to Telegram, and still overwrites \<open>lastResponse\<close> with
  the new document and \<open>lastResponseId\<close> with its id.
\<close>

theorem unchanged_cycle_commits:
  assumes "fetch_result (axios_get env) = Success d k"
      and "\<not> hasChanged k st"
  shows "notifications (snd (pollHttpEndpoint cfg B st env)) = []
       \<and> api_sends (snd (pollHttpEndpoint cfg B st env)) = []
       \<and> lastResponse (fst (pollHttpEndpoint cfg B st env)) = d
       \<and> lastResponseId (fst (pollHttpEndpoint cfg B st env)) = k"
  by (simp add: poll_success_notifications [OF assms(1)] assms(2)
        api_sends_poll_unchanged [OF assms] poll_success_state [OF assms(1)])

theorem unchanged_cycle_commits_witness:
  "fetch_result (axios_get poll_r1_99) = Success (doc 13 (JStr (units ''r1'')) 99) (JStr (units ''r1''))
   \<and> \<not> hasChanged (JStr (units ''r1'')) \<lparr>lastResponseId = JStr (units ''r1''), lastResponse = doc 3 (JStr (units ''r1'')) 10\<rparr>
   \<and> notifications (snd (pollHttpEndpoint demo_config demo_builtins
        \<lparr>lastResponseId = JStr (units ''r1''), lastResponse = doc 3 (JStr (units ''r1'')) 10\<rparr> poll_r1_99)) = []
   \<and> lastResponse (fst (pollHttpEndpoint demo_config demo_builtins
        \<lparr>lastResponseId = JStr (units ''r1''), lastResponse = doc 3 (JStr (units ''r1'')) 10\<rparr> poll_r1_99)) =
        JObj 13 [(units ''id'', JStr (units ''r1'')), (units ''value'', JNum 99)]"
proof -
  have a: "fetch_result (axios_get poll_r1_99) = Success (doc 13 (JStr (units ''r1'')) 99) (JStr (units ''r1''))"
    unfolding poll_r1_99_def by (rule fetch_doc)
  have b: "\<not> hasChanged (JStr (units ''r1''))
             \<lparr>lastResponseId = JStr (units ''r1''), lastResponse = doc 3 (JStr (units ''r1'')) 10\<rparr>"
    by (simp add: hasChanged_def)
  from unchanged_cycle_commits [OF a b, of demo_config demo_builtins] a b
  show ?thesis
    by (simp add: doc_def)
qed

text \<open>
  C5. On a successful fetch that is changed, \<open>sendTelegramMessage\<close> is called, and
  whatever it does (the Telegram API call throws, or the token or chat id is missing,
  so that it returns \<open>false\<close>) the cycle commits the document and its id: the state
  after the cycle is the same under every notifier configuration and every result of
  the API call, in particular the same as when the message is delivered.
\<close>

theorem notifier_failure_commits:
  assumes "fetch_result (axios_get env) = Success d k"
      and "hasChanged k st"
  shows "notifications (snd (pollHttpEndpoint cfg B st env)) =
           [change_message B (date_now env) True d]
       \<and> fst (pollHttpEndpoint cfg B st env) = \<lparr>lastResponseId = k, lastResponse = d\<rparr>
       \<and> fst (pollHttpEndpoint cfg B st (env\<lparr>send_api := api\<rparr>)) =
           fst (pollHttpEndpoint cfg' B st (env\<lparr>send_api := Delivered\<rparr>))"
proof -
  have one: "fetch_result (axios_get (env\<lparr>send_api := api\<rparr>)) = Success d k"
    using assms(1) by simp
  have other: "fetch_result (axios_get (env\<lparr>send_api := Delivered\<rparr>)) = Success d k"
    using assms(1) by simp
  show ?thesis
    by (simp add: poll_success_notifications [OF assms(1)] assms(2)
          poll_success_state [OF assms(1)] poll_success_state [OF one]
          poll_success_state [OF other])
qed

theorem notifier_failure_commits_witness:
  "fetch_result (axios_get poll_r2_99) = Success (doc 23 (JStr (units ''r2'')) 99) (JStr (units ''r2''))
   \<and> hasChanged (JStr (units ''r2'')) \<lparr>lastResponseId = JStr (units ''r1''), lastResponse = doc 13 (JStr (units ''r1'')) 99\<rparr>
   \<and> snd (sendTelegramMessage demo_config ''m'' (SendFailed ''ETIMEDOUT'')) = False
   \<and> fst (pollHttpEndpoint demo_config demo_builtins
        \<lparr>lastResponseId = JStr (units ''r1''), lastResponse = doc 13 (JStr (units ''r1'')) 99\<rparr>
        (poll_r2_99\<lparr>send_api := SendFailed ''ETIMEDOUT''\<rparr>)) =
       \<lparr>lastResponseId = JStr (units ''r2''), lastResponse = doc 23 (JStr (units ''r2'')) 99\<rparr>"
proof -
  have a: "fetch_result (axios_get poll_r2_99) = Success (doc 23 (JStr (units ''r2'')) 99) (JStr (units ''r2''))"
    unfolding poll_r2_99_def by (rule fetch_doc)
  have b: "hasChanged (JStr (units ''r2''))
             \<lparr>lastResponseId = JStr (units ''r1''), lastResponse = doc 13 (JStr (units ''r1'')) 99\<rparr>"
    by (simp add: hasChanged_def)
  have c: "snd (sendTelegramMessage demo_config ''m'' (SendFailed ''ETIMEDOUT'')) = False"
    by (simp add: sendTelegramMessage_def demo_config_def bot_def)
  have d: "fetch_result (axios_get (poll_r2_99\<lparr>send_api := SendFailed ''ETIMEDOUT''\<rparr>)) =
             Success (doc 23 (JStr (units ''r2'')) 99) (JStr (units ''r2''))"
    using a by simp
  from notifier_failure_commits [OF d b, of demo_config demo_builtins] a b c
  show ?thesis
    by simp
qed

section \<open>Malformed bodies\<close>

lemma lacks_data_throws:
  assumes "lacks_data body"
  shows "\<exists>e. read_candidate body = Inl e"
  using assms
  by (auto simp: lacks_data_def read_candidate_def split: sum.splits)

lemma empty_data_throws:
  assumes "empty_data body"
  shows "\<exists>e. read_candidate body = Inl e"
  using assms
  by (auto simp: empty_data_def read_candidate_def split: sum.splits jsval.splits list.splits)

text \<open>
  C6. A response with status 200 whose body has no \<open>data\<close> field, or has the empty
  array there, makes \<open>data[0]\<close> or \<open>.id\<close> throw inside the \<open>try\<close>; the \<open>catch\<close>
  logs it as a request exception, as it does a network failure. The cycle returns with
  the state as it was, without calling \<open>sendTelegramMessage\<close> and without sending
  anything to Telegram.
\<close>

theorem malformed_payload_is_caught:
  assumes "axios_get env = Response 200 body"
      and "lacks_data body \<or> empty_data body"
  shows "\<exists>m. fetch_result (axios_get env) = TransportError m
           \<and> pollHttpEndpoint cfg B st env =
               (st, poll_started cfg @ [LogError (''HTTP request exception: '' @ m)])
           \<and> notifications (snd (pollHttpEndpoint cfg B st env)) = []
           \<and> api_sends (snd (pollHttpEndpoint cfg B st env)) = []"
proof -
  from assms(2) obtain e where "read_candidate body = Inl e"
    using lacks_data_throws empty_data_throws by blast
  with assms(1) have t: "fetch_result (axios_get env) = TransportError (message e)"
    by (simp add: fetch_result_def)
  then have f: "failed (fetch_result (axios_get env))"
    by simp
  have "pollHttpEndpoint cfg B st env =
          (st, poll_started cfg @ [LogError (''HTTP request exception: '' @ message e)])"
    by (rule poll_transport_error [OF t])
  with t poll_failed_notifications [OF f] poll_failed_api_sends [OF f] show ?thesis
    by blast
qed

theorem malformed_payload_is_caught_witness:
  "axios_get (fetched (Response 200 (body_of 1 [])) ''09:00:00'') = Response 200 (body_of 1 [])
   \<and> empty_data (body_of 1 [])
   \<and> axios_get (fetched (Response 200 (JObj 1 [])) ''09:00:00'') = Response 200 (JObj 1 [])
   \<and> lacks_data (JObj 1 [])
   \<and> (\<exists>m. pollHttpEndpoint demo_config demo_builtins state_r2
              (fetched (Response 200 (body_of 1 [])) ''09:00:00'') =
            (state_r2, poll_started demo_config @ [LogError (''HTTP request exception: '' @ m)]))
   \<and> (\<exists>m. pollHttpEndpoint demo_config demo_builtins state_r2
              (fetched (Response 200 (JObj 1 [])) ''09:00:00'') =
            (state_r2, poll_started demo_config @ [LogError (''HTTP request exception: '' @ m)]))"
proof -
  have a: "axios_get (fetched (Response 200 (body_of 1 [])) ''09:00:00'') = Response 200 (body_of 1 [])"
    by (simp add: fetched_def)
  have b: "empty_data (body_of 1 [])"
    by (simp add: empty_data_def body_of_def)
  have c: "axios_get (fetched (Response 200 (JObj 1 [])) ''09:00:00'') = Response 200 (JObj 1 [])"
    by (simp add: fetched_def)
  have d: "lacks_data (JObj 1 [])"
    by (simp add: lacks_data_def)
  from malformed_payload_is_caught [OF a disjI2, OF b, of demo_config demo_builtins state_r2]
       malformed_payload_is_caught [OF c disjI1, OF d, of demo_config demo_builtins state_r2]
       a b c d
  show ?thesis
    by blast
qed

section \<open>The stored pair\<close>

lemma last_success_id:
  assumes "last_success envs = Some (d, k)"
  shows "get_prop d ''id'' = Inr k"
  using assms
proof (induction envs)
  case Nil
  then show ?case by simp
next
  case (Cons env envs)
  show ?case
  proof (cases "last_success envs")
    case None
    with Cons.prems have "fetch_result (axios_get env) = Success d k"
      by (simp split: poll_result.splits)
    then show ?thesis
      by (rule fetch_success_id)
  next
    case (Some c)
    with Cons show ?thesis
      by simp
  qed
qed

lemma run_cycles_state:
  "fst (run_cycles cfg B st envs) =
     (case last_success envs of
        None \<Rightarrow> st
      | Some (d, k) \<Rightarrow> \<lparr>lastResponseId = k, lastResponse = d\<rparr>)"
proof (induction envs arbitrary: st)
  case Nil
  show ?case by simp
next
  case (Cons env envs)
  show ?case
  proof (cases "last_success envs")
    case (Some c)
    then show ?thesis
      by (simp only: run_cycles_fst Cons.IH last_success.simps option.case)
  next
    case None
    show ?thesis
    proof (cases "fetch_result (axios_get env)")
      case (Success d k)
      then show ?thesis
        by (simp only: run_cycles_fst Cons.IH last_success.simps None option.case
              poll_result.case poll_success_state [OF Success] prod.case)
    next
      case (HttpError status)
      then have "fst (pollHttpEndpoint cfg B st env) = st"
        by (simp add: poll_failed_state)
      with HttpError show ?thesis
        by (simp only: run_cycles_fst Cons.IH last_success.simps None option.case
              poll_result.case)
    next
      case (TransportError m)
      then have "fst (pollHttpEndpoint cfg B st env) = st"
        by (simp add: poll_failed_state)
      with TransportError show ?thesis
        by (simp only: run_cycles_fst Cons.IH last_success.simps None option.case
              poll_result.case)
    qed
  qed
qed

text \<open>
  C10. After any sequence of cycles run one after the other from the initial state,
  either no cycle has succeeded and the pair is still \<open>(null, null)\<close>, or the pair is
  \<open>(d.id, d)\<close> for the document \<open>d\<close> of the most recent successful cycle. Failed
  cycles do not show in it.
\<close>

theorem state_pair_coupled:
  "(last_success envs = None
      \<and> fst (run_cycles cfg B initial_state envs) = initial_state)
   \<or> (\<exists>d k. last_success envs = Some (d, k)
          \<and> get_prop d ''id'' = Inr k
          \<and> fst (run_cycles cfg B initial_state envs) =
              \<lparr>lastResponseId = k, lastResponse = d\<rparr>)"
proof (cases "last_success envs")
  case None
  then show ?thesis
    by (simp add: run_cycles_state)
next
  case (Some c)
  obtain d k where c: "c = (d, k)"
    by (cases c)
  with Some have s: "last_success envs = Some (d, k)"
    by simp
  then have "get_prop d ''id'' = Inr k"
    by (rule last_success_id)
  with s show ?thesis
    by (simp add: run_cycles_state)
qed

theorem state_pair_coupled_witness:
  "last_success [poll_r1_10, poll_r1_99, poll_r2_99, poll_timeout] =
     Some (doc 23 (JStr (units ''r2'')) 99, JStr (units ''r2''))
   \<and> get_prop (doc 23 (JStr (units ''r2'')) 99) ''id'' = Inr (JStr (units ''r2''))
   \<and> fst (run_cycles demo_config demo_builtins initial_state
        [poll_r1_10, poll_r1_99, poll_r2_99, poll_timeout]) =
       \<lparr>lastResponseId = JStr (units ''r2''), lastResponse = doc 23 (JStr (units ''r2'')) 99\<rparr>"
proof -
  have t: "fetch_result (axios_get poll_timeout) = TransportError ''timeout of 30000ms exceeded''"
    by (simp add: fetch_result_def fetched_def poll_timeout_def)
  have r: "fetch_result (axios_get poll_r2_99) = Success (doc 23 (JStr (units ''r2'')) 99) (JStr (units ''r2''))"
    unfolding poll_r2_99_def by (rule fetch_doc)
  have l: "last_success [poll_r1_10, poll_r1_99, poll_r2_99, poll_timeout] =
             Some (doc 23 (JStr (units ''r2'')) 99, JStr (units ''r2''))"
    by (simp add: t r)
  from state_pair_coupled
         [of "[poll_r1_10, poll_r1_99, poll_r2_99, poll_timeout]" demo_config demo_builtins] l
  show ?thesis
    by auto
qed

section \<open>The status command\<close>

lemma status_command_state: "fst (status_command cfg B st now replied) = st"
  by (simp add: status_command_def)

lemma status_message_stored:
  assumes "truthy (lastResponse st) = truthy (lastResponse st')"
  shows "status_message cfg B st now = status_message cfg B st' now"
  using assms by (simp add: status_message_def)

text \<open>
  C7 on the code. A poll at 09:00:00 commits \<open>{id: "r1", value: 10}\<close>; a \<open>/status\<close>
  at 17:30:00 then replies with the interval, the URL and the flag, and under
  "Last update time" with 17:30:00, the time of the command: the program keeps no time
  of the last update. The command leaves the state as it was.
\<close>

theorem status_reports_query_time:
  "status_command demo_config demo_builtins
     (fst (pollHttpEndpoint demo_config demo_builtins initial_state poll_r1_10))
     ''17:30:00'' Replied =
   (\<lparr>lastResponseId = JStr (units ''r1''), lastResponse = doc 3 (JStr (units ''r1'')) 10\<rparr>,
    [Reply (''\<newline>'' @ emoji_magnifier @ '' <b>Bot Status</b>\<newline>\<newline>''
            @ emoji_stopwatch @ '' Polling interval: 300 seconds\<newline>''
            @ emoji_link @ '' API address: https://example.org/items\<newline>''
            @ emoji_memo @ '' Notify only on data change: Yes\<newline>''
            @ emoji_clock @ '' Last update time: 17:30:00\<newline>    ''),
     LogInfo ''User sent /status command''])"
proof -
  have a: "fetch_result (axios_get poll_r1_10) = Success (doc 3 (JStr (units ''r1'')) 10) (JStr (units ''r1''))"
    unfolding poll_r1_10_def by (rule fetch_doc)
  show ?thesis
    by (simp add: poll_success_state [OF a] status_command_def status_message_def
          demo_config_def doc_def num_str_300 del: num_str.simps)
qed

section \<open>Starting up\<close>

lemma main_fst: "fst (main cfg B env) = fst (pollHttpEndpoint cfg B initial_state env)"
  by (simp add: main_def split: prod.splits)

lemma main_snd:
  "snd (main cfg B env) =
     LogInfo ''HTTP polling service started''
       # (if bot cfg then [BotStart, LogInfo ''Telegram bot started''] else [])
       @ snd (pollHttpEndpoint cfg B initial_state env)
       @ [ScheduleJob (cron cfg B),
          LogInfo (''Scheduled task set up, polling every ''
             @ num_str B (REQUEST_INTERVAL cfg) @ '' seconds'')]"
  by (simp add: main_def split: prod.splits)

lemma poll_starts_with_request:
  "\<exists>rest. snd (pollHttpEndpoint cfg B st env) = poll_started cfg @ rest"
  by (cases "poll_try cfg B st env") (auto simp: pollHttpEndpoint_def)

lemma poll_issues_request:
  "AxiosGet (API_URL cfg) (REQUEST_HEADERS cfg)
     (map_option (\<lambda>t. t * 1000) (REQUEST_TIMEOUT cfg))
     \<in> set (snd (pollHttpEndpoint cfg B st env))"
proof -
  obtain rest where "snd (pollHttpEndpoint cfg B st env) = poll_started cfg @ rest"
    using poll_starts_with_request by blast
  then show ?thesis
    by (simp add: poll_started_def)
qed

lemma send_without_credentials:
  assumes "\<not> bot cfg \<or> \<not> env_truthy (TELEGRAM_CHAT_ID cfg)"
  shows "api_sends (fst (sendTelegramMessage cfg msg api)) = []"
  using assms by (auto simp: sendTelegramMessage_def)

lemma poll_without_credentials:
  assumes "\<not> bot cfg \<or> \<not> env_truthy (TELEGRAM_CHAT_ID cfg)"
  shows "api_sends (snd (pollHttpEndpoint cfg B st env)) = []"
proof (cases "fetch_result (axios_get env)")
  case (Success d k)
  show ?thesis
    by (simp add: poll_success [OF Success] api_sends_append api_sends_started
          send_without_credentials [OF assms])
next
  case (HttpError status)
  then show ?thesis
    by (simp add: poll_failed_api_sends)
next
  case (TransportError m)
  then show ?thesis
    by (simp add: poll_failed_api_sends)
qed

lemma run_without_credentials:
  assumes "\<not> bot cfg \<or> \<not> env_truthy (TELEGRAM_CHAT_ID cfg)"
  shows "api_sends (snd (run_cycles cfg B st envs)) = []"
proof (induction envs arbitrary: st)
  case Nil
  show ?case by simp
next
  case (Cons e envs)
  show ?case
    by (simp only: run_cycles_snd api_sends_append poll_without_credentials [OF assms]
          Cons.IH append_Nil)
qed

lemma poll_state_any_config:
  "fst (pollHttpEndpoint cfg B st env) = fst (pollHttpEndpoint cfg' B st env)"
  by (cases "fetch_result (axios_get env)")
     (simp_all add: poll_success_state poll_failed_state)

lemma main_without_credentials:
  assumes "\<not> bot cfg \<or> \<not> env_truthy (TELEGRAM_CHAT_ID cfg)"
  shows "api_sends (snd (main cfg B env)) = []"
  by (simp add: main_snd api_sends_append poll_without_credentials [OF assms])

text \<open>
  C8, as the code has it. \<open>main\<close> does not look at the URL. Whatever the
  configuration, it runs the immediate poll, whose request goes out with the configured
  URL or with \<open>undefined\<close>, and schedules the job. When the bot token or the chat id
  is missing, neither \<open>main\<close> nor any later cycle sends anything to Telegram, and the
  state after \<open>main\<close> and after any run of cycles is the one that every other
  configuration reaches.
\<close>

theorem startup_polls_without_url_check:
  "AxiosGet (API_URL cfg) (REQUEST_HEADERS cfg)
     (map_option (\<lambda>t. t * 1000) (REQUEST_TIMEOUT cfg)) \<in> set (snd (main cfg B env))
   \<and> ScheduleJob (cron cfg B) \<in> set (snd (main cfg B env))
   \<and> fst (main cfg B env) = fst (main cfg' B env)
   \<and> fst (run_cycles cfg B st envs) = fst (run_cycles cfg' B st envs)
   \<and> (\<not> bot cfg \<or> \<not> env_truthy (TELEGRAM_CHAT_ID cfg) \<longrightarrow>
        api_sends (snd (main cfg B env)) = []
        \<and> api_sends (snd (run_cycles cfg B st envs)) = [])"
proof -
  have request: "AxiosGet (API_URL cfg) (REQUEST_HEADERS cfg)
     (map_option (\<lambda>t. t * 1000) (REQUEST_TIMEOUT cfg)) \<in> set (snd (main cfg B env))"
    using poll_issues_request [of cfg B initial_state env] by (simp add: main_snd)
  have job: "ScheduleJob (cron cfg B) \<in> set (snd (main cfg B env))"
    by (simp add: main_snd)
  have start: "fst (main cfg B env) = fst (main cfg' B env)"
    by (simp only: main_fst poll_state_any_config [of cfg B initial_state env cfg'])
  have run: "fst (run_cycles cfg B st envs) = fst (run_cycles cfg' B st envs)"
    by (simp only: run_cycles_state)
  show ?thesis
    using request job start run main_without_credentials run_without_credentials
    by blast
qed

theorem startup_polls_without_url_check_witness:
  "API_URL bare_config = None
   \<and> \<not> bot bare_config
   \<and> AxiosGet None None (Some 30000) \<in> set (snd (main bare_config demo_builtins poll_no_url))
   \<and> ScheduleJob ''*/300 * * * * *'' \<in> set (snd (main bare_config demo_builtins poll_no_url))
   \<and> api_sends (snd (main bare_config demo_builtins poll_no_url)) = []
   \<and> \<not> bot no_token_config
   \<and> api_sends (snd (main no_token_config demo_builtins poll_r1_10)) = []
   \<and> api_sends (snd (run_cycles no_token_config demo_builtins initial_state
        [poll_r1_10, poll_r2_99])) = []
   \<and> fst (main no_token_config demo_builtins poll_r1_10) =
       \<lparr>lastResponseId = JStr (units ''r1''), lastResponse = doc 3 (JStr (units ''r1'')) 10\<rparr>"
proof -
  have u: "API_URL bare_config = None"
    by (simp add: bare_config_def)
  have b: "\<not> bot bare_config" "\<not> bot no_token_config"
    by (simp_all add: bare_config_def no_token_config_def bot_def)
  have a: "fetch_result (axios_get poll_r1_10) =
             Success (doc 3 (JStr (units ''r1'')) 10) (JStr (units ''r1''))"
    unfolding poll_r1_10_def by (rule fetch_doc)
  have st: "fst (main no_token_config demo_builtins poll_r1_10) =
              \<lparr>lastResponseId = JStr (units ''r1''), lastResponse = doc 3 (JStr (units ''r1'')) 10\<rparr>"
    by (simp add: main_fst poll_success_state [OF a])
  have c: "cron bare_config demo_builtins = ''*/300 * * * * *''"
    by (simp add: cron_def bare_config_def demo_config_def num_str_300 del: num_str.simps)
  have r: "REQUEST_HEADERS bare_config = None
         \<and> map_option (\<lambda>t. t * 1000) (REQUEST_TIMEOUT bare_config) = Some 30000"
    by (simp add: bare_config_def demo_config_def)
  from startup_polls_without_url_check
         [where cfg = bare_config and B = demo_builtins and env = poll_no_url]
       startup_polls_without_url_check
         [where cfg = no_token_config and B = demo_builtins and env = poll_r1_10
            and st = initial_state and envs = "[poll_r1_10, poll_r2_99]"]
       u b st c r
  show ?thesis
    by simp
qed

text \<open>
  C8 with its refusal to start fails: with the URL absent the program starts all the
  same. It logs "Starting to poll undefined", issues the request with an undefined
  URL, logs the exception and schedules the job.
\<close>

theorem startup_without_url_counterexample:
  "API_URL no_url_config = None
   \<and> snd (main no_url_config demo_builtins poll_no_url) =
       [LogInfo ''HTTP polling service started'',
        BotStart,
        LogInfo ''Telegram bot started'',
        LogInfo ''Starting to poll undefined'',
        AxiosGet None None (Some 30000),
        LogError ''HTTP request exception: Invalid URL'',
        ScheduleJob ''*/300 * * * * *'',
        LogInfo ''Scheduled task set up, polling every 300 seconds'']"
proof -
  have t: "fetch_result (axios_get poll_no_url) = TransportError ''Invalid URL''"
    by (simp add: fetch_result_def fetched_def poll_no_url_def)
  show ?thesis
    by (simp add: main_snd poll_transport_error [OF t] poll_started_def cron_def bot_def
          no_url_config_def demo_config_def num_str_300 del: num_str.simps)
qed

section \<open>Overlapping invocations\<close>

lemma send_split:
  "fst (sendTelegramMessage cfg msg api) =
     fst (send_begin cfg msg) @ (if snd (send_begin cfg msg) then send_end api else [])"
  by (simp add: sendTelegramMessage_def send_begin_def send_end_def split: send_result.split)

lemma step_Invoke:
  "step cfg B s Invoke =
     Some (s\<lparr>tasks := tasks s @ [AwaitGet], trace := trace s @ poll_started cfg\<rparr>)"
  by (simp add: step_def)

lemma step_GetSettled:
  assumes "i < length (tasks s)" and "tasks s ! i = AwaitGet"
  shows "step cfg B s (GetSettled i r now) =
           Some \<lparr>vars = fst (on_get cfg B (vars s) r now),
                 tasks = (tasks s)[i := fst (snd (on_get cfg B (vars s) r now))],
                 trace = trace s @ snd (snd (on_get cfg B (vars s) r now))\<rparr>"
  using assms by (simp add: step_def split: prod.splits)

lemma step_ApiSettled:
  assumes "i < length (tasks s)" and "tasks s ! i = AwaitApi d k c"
  shows "step cfg B s (ApiSettled i api) =
           Some (s\<lparr>tasks := (tasks s)[i := AwaitSent d k c], trace := trace s @ send_end api\<rparr>)"
  using assms by (simp add: step_def)

lemma step_Resume:
  assumes "i < length (tasks s)" and "tasks s ! i = AwaitSent d k c"
  shows "step cfg B s (Resume i) =
           Some \<lparr>vars = \<lparr>lastResponseId = k, lastResponse = d\<rparr>,
                 tasks = (tasks s)[i := Returned],
                 trace = trace s @ [LogInfo (''Polling completed, data ''
                                      @ (if c then ''updated'' else ''unchanged''))]\<rparr>"
  using assms by (simp add: step_def on_resume_def)

lemma on_get_unchanged:
  assumes "fetch_result r = Success d k" and "\<not> hasChanged k st"
  shows "on_get cfg B st r now =
           (\<lparr>lastResponseId = k, lastResponse = d\<rparr>, Returned,
            [LogInfo ''Polling completed, data unchanged''])"
  using assms
  by (auto simp: fetch_result_def on_get_def
           split: axios_result.splits sum.splits if_splits)

lemma on_get_changed:
  assumes "fetch_result r = Success d k" and "hasChanged k st"
  shows "on_get cfg B st r now =
           (st,
            if snd (send_begin cfg (change_message B now True d)) then AwaitApi d k True
            else AwaitSent d k True,
            Notify (change_message B now True d)
              # fst (send_begin cfg (change_message B now True d)))"
  using assms
  by (auto simp: fetch_result_def on_get_def Let_def
           split: axios_result.splits sum.splits if_splits prod.splits)

lemma on_get_http_error:
  assumes "fetch_result r = HttpError status"
  shows "on_get cfg B st r now =
           (st, Returned, [LogError (''HTTP request failed: Status code '' @ num_str B (Some status))])"
  using assms
  by (auto simp: fetch_result_def on_get_def
           split: axios_result.splits sum.splits if_splits)

lemma on_get_transport_error:
  assumes "fetch_result r = TransportError m"
  shows "on_get cfg B st r now =
           (st, Returned, [LogError (''HTTP request exception: '' @ m)])"
  using assms
  by (auto simp: fetch_result_def on_get_def
           split: axios_result.splits sum.splits if_splits)

text \<open>An invocation that nothing overlaps does what \<open>pollHttpEndpoint\<close> does in one
  piece.\<close>

lemma alone_is_pollHttpEndpoint:
  "exec cfg B s (alone cfg (vars s) env (length (tasks s))) =
     Some \<lparr>vars = fst (pollHttpEndpoint cfg B (vars s) env),
           tasks = tasks s @ [Returned],
           trace = trace s @ snd (pollHttpEndpoint cfg B (vars s) env)\<rparr>"
proof -
  let ?i = "length (tasks s)"
  let ?s1 = "s\<lparr>tasks := tasks s @ [AwaitGet], trace := trace s @ poll_started cfg\<rparr>"
  have i: "?i < length (tasks ?s1)" "tasks ?s1 ! ?i = AwaitGet"
    by simp_all
  note get = step_GetSettled [OF i, of cfg B "axios_get env" "date_now env"]
  show ?thesis
  proof (cases "fetch_result (axios_get env)")
    case (HttpError status)
    show ?thesis
      by (simp add: alone_def HttpError step_Invoke get on_get_http_error [OF HttpError]
            poll_http_error [OF HttpError])
  next
    case (TransportError m)
    show ?thesis
      by (simp add: alone_def TransportError step_Invoke get
            on_get_transport_error [OF TransportError] poll_transport_error [OF TransportError])
  next
    case (Success d k)
    show ?thesis
    proof (cases "hasChanged k (vars s)")
      case False
      show ?thesis
        by (simp add: alone_def Success False step_Invoke get
              on_get_unchanged [OF Success False] poll_success [OF Success])
    next
      case True
      show ?thesis
      proof (cases "bot cfg \<and> env_truthy (TELEGRAM_CHAT_ID cfg)")
        case creds: True
        show ?thesis
          apply (simp add: alone_def Success True creds step_Invoke get
              on_get_changed [OF Success True] poll_success [OF Success] send_split)
          apply (simp add: send_begin_def creds step_def on_resume_def)
          done
      next
        case creds: False
        show ?thesis
          apply (simp add: alone_def Success True creds step_Invoke get
              on_get_changed [OF Success True] poll_success [OF Success] send_split)
          apply (insert creds, auto simp add: send_begin_def step_def on_resume_def)
          done
      qed
    qed
  qed
qed

lemma check_command_polls:
  "fst (check_command cfg B st Replied env replied') = fst (pollHttpEndpoint cfg B st env)"
  by (simp add: check_command_def split: prod.splits)

lemma in_flight_Invoke:
  "in_flight (s\<lparr>tasks := tasks s @ [AwaitGet], trace := t\<rparr>) = Suc (in_flight s)"
  by (simp add: in_flight_def)

lemma triggers_admitted:
  "\<exists>s'. exec cfg B s (replicate n Invoke) = Some s'
        \<and> in_flight s' = in_flight s + n \<and> vars s' = vars s"
proof (induction n arbitrary: s)
  case 0
  show ?case by simp
next
  case (Suc n)
  let ?s1 = "s\<lparr>tasks := tasks s @ [AwaitGet], trace := trace s @ poll_started cfg\<rparr>"
  from Suc.IH [of ?s1] obtain s' where
    "exec cfg B ?s1 (replicate n Invoke) = Some s'"
    "in_flight s' = in_flight ?s1 + n" "vars s' = vars ?s1"
    by blast
  then show ?case
    by (simp add: step_Invoke in_flight_Invoke)
qed

text \<open>However invocations overlap, each commit writes the document and its id in one
  step, so the stored pair always belongs together.\<close>

lemma on_get_cases:
  "(\<exists>ev. on_get cfg B st r now = (st, Returned, ev))
   \<or> (\<exists>d k ev. fetch_result r = Success d k
         \<and> (on_get cfg B st r now = (\<lparr>lastResponseId = k, lastResponse = d\<rparr>, Returned, ev)
            \<or> on_get cfg B st r now = (st, AwaitApi d k True, ev)
            \<or> on_get cfg B st r now = (st, AwaitSent d k True, ev)))"
proof (cases "fetch_result r")
  case (Success d k)
  then show ?thesis
    by (cases "hasChanged k st") (auto simp: on_get_changed on_get_unchanged)
next
  case (HttpError status)
  then show ?thesis by (simp add: on_get_http_error)
next
  case (TransportError m)
  then show ?thesis by (simp add: on_get_transport_error)
qed

lemma list_all_update:
  assumes "list_all P xs" and "P x"
  shows "list_all P (xs[i := x])"
  using assms by (auto simp: list_all_iff dest: set_update_subset_insert [THEN subsetD])

lemma list_all_nth:
  assumes "list_all P xs" and "i < length xs"
  shows "P (xs ! i)"
  using assms by (simp add: list_all_length)

lemma step_coupled:
  assumes "coupled s" and "step cfg B s a = Some s'"
  shows "coupled s'"
proof (cases a)
  case Invoke
  with assms show ?thesis
    by (auto simp: step_Invoke coupled_def)
next
  case (GetSettled i r now)
  with assms(2) have i: "i < length (tasks s)" "tasks s ! i = AwaitGet"
    by (auto simp: step_def split: if_splits task.splits)
  from assms(2) GetSettled step_GetSettled [OF i, of cfg B r now]
  have s': "s' = \<lparr>vars = fst (on_get cfg B (vars s) r now),
                  tasks = (tasks s)[i := fst (snd (on_get cfg B (vars s) r now))],
                  trace = trace s @ snd (snd (on_get cfg B (vars s) r now))\<rparr>"
    by simp
  from on_get_cases [of cfg B "vars s" r now] assms(1) show ?thesis
    unfolding s' coupled_def
    by (auto simp: list_all_update dest: fetch_success_id)
next
  case (ApiSettled i api)
  with assms(2) obtain d k c where i: "i < length (tasks s)" "tasks s ! i = AwaitApi d k c"
    by (auto simp: step_def split: if_splits task.splits)
  from assms(1) i have "task_coupled (AwaitApi d k c)"
    by (metis coupled_def list_all_nth)
  with assms ApiSettled step_ApiSettled [OF i, of cfg B api] show ?thesis
    by (auto simp: coupled_def list_all_update)
next
  case (Resume i)
  with assms(2) obtain d k c where i: "i < length (tasks s)" "tasks s ! i = AwaitSent d k c"
    by (auto simp: step_def split: if_splits task.splits)
  from assms(1) i have "task_coupled (AwaitSent d k c)"
    by (metis coupled_def list_all_nth)
  with assms Resume step_Resume [OF i, of cfg B] show ?thesis
    by (auto simp: coupled_def list_all_update)
qed

lemma exec_coupled:
  assumes "coupled s" and "exec cfg B s acts = Some s'"
  shows "coupled s'"
  using assms
proof (induction acts arbitrary: s)
  case Nil
  then show ?case by simp
next
  case (Cons a acts)
  then show ?case
    by (auto split: option.splits dest: step_coupled)
qed

lemma overlapping_cycles_keep_pair:
  assumes "exec cfg B idle acts = Some s"
  shows "vars s = initial_state
       \<or> get_prop (lastResponse (vars s)) ''id'' = Inr (lastResponseId (vars s))"
proof -
  have "coupled idle"
    by (simp add: coupled_def idle_def)
  from exec_coupled [OF this assms] show ?thesis
    by (simp add: coupled_def)
qed

text \<open>
  C9, as the code has it. There is no execution lock. A trigger always starts an
  invocation, however many are in flight: \<open>n\<close> triggers in a row leave \<open>n\<close> more
  invocations in flight. An invocation suspended at an \<open>await\<close> continues as soon as the
  awaited promise settles, whatever the other invocations are doing. Only the code
  between two awaits runs undivided: a cycle that finds the id unchanged commits in the
  step that evaluates, and the commit of a changed cycle writes both variables in the
  one step that resumes it.
\<close>

theorem no_execution_lock:
  "step cfg B s Invoke =
     Some (s\<lparr>tasks := tasks s @ [AwaitGet], trace := trace s @ poll_started cfg\<rparr>)
   \<and> (\<exists>s'. exec cfg B s (replicate n Invoke) = Some s'
          \<and> in_flight s' = in_flight s + n \<and> vars s' = vars s)
   \<and> (i < length (tasks s) \<and> tasks s ! i = AwaitGet \<longrightarrow>
        step cfg B s (GetSettled i r now) \<noteq> None)
   \<and> (i < length (tasks s) \<and> tasks s ! i = AwaitApi d k c \<longrightarrow>
        step cfg B s (ApiSettled i api) \<noteq> None)
   \<and> (i < length (tasks s) \<and> tasks s ! i = AwaitSent d k c \<longrightarrow>
        step cfg B s (Resume i) =
          Some \<lparr>vars = \<lparr>lastResponseId = k, lastResponse = d\<rparr>,
                tasks = (tasks s)[i := Returned],
                trace = trace s @ [LogInfo (''Polling completed, data ''
                                     @ (if c then ''updated'' else ''unchanged''))]\<rparr>)
   \<and> (i < length (tasks s) \<and> tasks s ! i = AwaitGet
        \<and> fetch_result r = Success d k \<and> \<not> hasChanged k (vars s) \<longrightarrow>
        step cfg B s (GetSettled i r now) =
          Some \<lparr>vars = \<lparr>lastResponseId = k, lastResponse = d\<rparr>,
                tasks = (tasks s)[i := Returned],
                trace = trace s @ [LogInfo ''Polling completed, data unchanged'']\<rparr>)"
  using triggers_admitted [of cfg B s n]
  by (simp add: step_Invoke step_GetSettled step_ApiSettled step_Resume on_get_unchanged)

theorem no_execution_lock_witness:
  "step demo_config demo_builtins waiting Invoke =
     Some (waiting\<lparr>tasks := tasks waiting @ [AwaitGet],
                   trace := trace waiting @ poll_started demo_config\<rparr>)
   \<and> in_flight waiting = 3
   \<and> (\<exists>s'. exec demo_config demo_builtins waiting [Invoke, Invoke] = Some s'
          \<and> in_flight s' = 5 \<and> vars s' = vars waiting)
   \<and> 0 < length (tasks waiting) \<and> tasks waiting ! 0 = AwaitGet
   \<and> fetch_result (axios_get poll_r1_99) = Success (doc 13 (JStr (units ''r1'')) 99) (JStr (units ''r1''))
   \<and> \<not> hasChanged (JStr (units ''r1'')) (vars waiting)
   \<and> step demo_config demo_builtins waiting (GetSettled 0 (axios_get poll_r1_99) ''09:05:00'') =
        Some \<lparr>vars = \<lparr>lastResponseId = JStr (units ''r1''), lastResponse = doc 13 (JStr (units ''r1'')) 99\<rparr>,
              tasks = (tasks waiting)[0 := Returned],
              trace = trace waiting @ [LogInfo ''Polling completed, data unchanged'']\<rparr>
   \<and> 1 < length (tasks waiting)
   \<and> tasks waiting ! 1 = AwaitApi (doc 23 (JStr (units ''r2'')) 99) (JStr (units ''r2'')) True
   \<and> step demo_config demo_builtins waiting (ApiSettled 1 Delivered) \<noteq> None
   \<and> 2 < length (tasks waiting)
   \<and> tasks waiting ! 2 = AwaitSent (doc 33 (JStr (units ''r3'')) 7) (JStr (units ''r3'')) True
   \<and> step demo_config demo_builtins waiting (Resume 2) =
        Some \<lparr>vars = \<lparr>lastResponseId = JStr (units ''r3''), lastResponse = doc 33 (JStr (units ''r3'')) 7\<rparr>,
              tasks = (tasks waiting)[2 := Returned],
              trace = trace waiting @ [LogInfo ''Polling completed, data updated'']\<rparr>"
proof -
  have a: "fetch_result (axios_get poll_r1_99) = Success (doc 13 (JStr (units ''r1'')) 99) (JStr (units ''r1''))"
    unfolding poll_r1_99_def by (rule fetch_doc)
  have t0: "0 < length (tasks waiting) \<and> tasks waiting ! 0 = AwaitGet"
    by (simp add: waiting_def)
  have t1: "1 < length (tasks waiting)
          \<and> tasks waiting ! 1 = AwaitApi (doc 23 (JStr (units ''r2'')) 99) (JStr (units ''r2'')) True"
    by (simp add: waiting_def)
  have t2: "2 < length (tasks waiting)
          \<and> tasks waiting ! 2 = AwaitSent (doc 33 (JStr (units ''r3'')) 7) (JStr (units ''r3'')) True"
    by (simp add: waiting_def)
  have u: "\<not> hasChanged (JStr (units ''r1'')) (vars waiting)"
    by (simp add: waiting_def hasChanged_def)
  have n: "in_flight waiting = 3"
    by (simp add: in_flight_def waiting_def)
  have two: "replicate (Suc (Suc 0)) Invoke = [Invoke, Invoke]"
    by simp
  from no_execution_lock
         [of demo_config demo_builtins waiting "Suc (Suc 0)" 0 "axios_get poll_r1_99"
             "''09:05:00''" "doc 13 (JStr (units ''r1'')) 99" "JStr (units ''r1'')"]
       no_execution_lock
         [of demo_config demo_builtins waiting 0 1 _ _
             "doc 23 (JStr (units ''r2'')) 99" "JStr (units ''r2'')" True Delivered]
       no_execution_lock
         [of demo_config demo_builtins waiting 0 2 _ _
             "doc 33 (JStr (units ''r3'')) 7" "JStr (units ''r3'')" True]
       a t0 t1 t2 u n
  show ?thesis
    unfolding two by simp
qed

text \<open>
  C9 with its lock fails. Two triggers in a row leave two invocations in
  flight; neither is rejected or dropped. Both requests return a document with id
  \<open>"r1"\<close>. The second invocation evaluates while the first waits for Telegram,
  before the first has committed; so both find the id changed, both call
  \<open>sendTelegramMessage\<close>, and both run to their end. Run one after the other, the same
  two cycles call it once.
\<close>

theorem overlapping_cycles_counterexample:
  "outcome (exec demo_config demo_builtins idle [Invoke, Invoke]) =
     Some (initial_state, [AwaitGet, AwaitGet], [])
   \<and> outcome (exec demo_config demo_builtins idle overlapped) =
       Some (\<lparr>lastResponseId = JStr (units ''r1''), lastResponse = doc 13 (JStr (units ''r1'')) 99\<rparr>,
             [Returned, Returned],
             [change_message demo_builtins ''09:00:00'' True (doc 3 (JStr (units ''r1'')) 10),
              change_message demo_builtins ''09:05:00'' True (doc 13 (JStr (units ''r1'')) 99)])
   \<and> notifications (snd (run_cycles demo_config demo_builtins initial_state
         [poll_r1_10, poll_r1_99])) =
       [change_message demo_builtins ''09:00:00'' True (doc 3 (JStr (units ''r1'')) 10)]"
proof -
  have a: "fetch_result (axios_get poll_r1_10) = Success (doc 3 (JStr (units ''r1'')) 10) (JStr (units ''r1''))"
    unfolding poll_r1_10_def by (rule fetch_doc)
  have b: "fetch_result (axios_get poll_r1_99) = Success (doc 13 (JStr (units ''r1'')) 99) (JStr (units ''r1''))"
    unfolding poll_r1_99_def by (rule fetch_doc)
  have ta: "date_now poll_r1_10 = ''09:00:00''"
    by (simp add: poll_r1_10_def fetched_def)
  have tb: "date_now poll_r1_99 = ''09:05:00''"
    by (simp add: poll_r1_99_def fetched_def)
  have creds: "bot demo_config \<and> env_truthy (TELEGRAM_CHAT_ID demo_config)"
    by (simp add: demo_config_def bot_def)
  have two: "outcome (exec demo_config demo_builtins idle [Invoke, Invoke]) =
               Some (initial_state, [AwaitGet, AwaitGet], [])"
    by (simp add: outcome_def idle_def step_Invoke notifications_append notifications_started)
  have run: "outcome (exec demo_config demo_builtins idle overlapped) =
       Some (\<lparr>lastResponseId = JStr (units ''r1''), lastResponse = doc 13 (JStr (units ''r1'')) 99\<rparr>,
             [Returned, Returned],
             [change_message demo_builtins ''09:00:00'' True (doc 3 (JStr (units ''r1'')) 10),
              change_message demo_builtins ''09:05:00'' True (doc 13 (JStr (units ''r1'')) 99)])"
    by (simp add: outcome_def idle_def overlapped_def step_Invoke step_GetSettled
          step_ApiSettled step_Resume on_get_changed [OF a] on_get_changed [OF b]
          hasChanged_initial creds ta tb notifications_append notifications_started
          send_begin_def send_end_def)
  have seq: "notifications (snd (run_cycles demo_config demo_builtins initial_state
         [poll_r1_10, poll_r1_99])) =
       [change_message demo_builtins ''09:00:00'' True (doc 3 (JStr (units ''r1'')) 10)]"
    by (simp add: run_cycles_snd notifications_append poll_success_notifications [OF a]
          poll_success_notifications [OF b] poll_success_state [OF a] hasChanged_initial
          hasChanged_committed ta del: run_cycles.simps(2))
  from two run seq show ?thesis
    by blast
qed

end
